theory Spec2Isabelle
  imports Complex_Main
begin

section \<open>Values\<close>

text \<open>
  The dashboard is a JavaScript program. Its numbers are modelled as reals: every numeric
  form field is written through \<^verbatim>\<open>parseFloat(e.target.value) || 0\<close>, so the handlers modelled
  here only ever see proper numbers (never NaN, never a string), and the arithmetic of the
  source (\<^verbatim>\<open>+\<close>, \<^verbatim>\<open>*\<close>, \<^verbatim>\<open>/\<close>) is read as exact arithmetic. Rounding of IEEE doubles is outside
  the model.
\<close>

type_synonym number = real

text \<open>\<^verbatim>\<open>x || 0\<close> on a number: the falsy number \<^verbatim>\<open>0\<close> is replaced by \<^verbatim>\<open>0\<close>.\<close>

definition orZero :: "number \<Rightarrow> number" where
  "orZero x = (if x = 0 then 0 else x)"

text \<open>Truthiness of a string: only the empty string is falsy.\<close>

definition truthy :: "string \<Rightarrow> bool" where
  "truthy s = (s \<noteq> [])"

section \<open>Invoice manager: line items and totals\<close>

record item =
  item_id :: number
  description :: string
  qty :: number
  unitPrice :: number
  item_total :: number

text \<open>The \<^verbatim>\<open>invoice\<close> state of the invoice manager, field by field.\<close>

record invoice =
  inv_invoiceNo :: string
  inv_date :: string
  inv_customerName :: string
  inv_customerAddress :: string
  inv_customerPhone :: string
  billTo :: string
  items :: "item list"
  subtotal :: number
  taxRate :: number
  taxAmount :: number
  isVatExempt :: bool
  totalAmount :: number
  inv_bankingDetails :: string
  inv_status :: string

text \<open>
  \<^verbatim>\<open>calculateTotals(currentItems, isVatExempt, taxRate)\<close>: the reduce over the items starting
  from 0, the tax, the total, and the state update \<^verbatim>\<open>setInvoice(prev => ({...prev, ...}))\<close>.
\<close>

definition calculateTotals ::
  "item list \<Rightarrow> bool \<Rightarrow> number \<Rightarrow> 'a invoice_scheme \<Rightarrow> 'a invoice_scheme" where
  "calculateTotals currentItems vatExempt rate prev =
     (let newSubtotal = foldl (\<lambda>sum it. sum + qty it * unitPrice it) 0 currentItems;
          calculatedTax = (if vatExempt then 0 else newSubtotal * (rate / 100));
          newTotal = newSubtotal + calculatedTax
      in prev\<lparr>items := currentItems,
               subtotal := newSubtotal,
               taxAmount := calculatedTax,
               totalAmount := newTotal,
               isVatExempt := vatExempt\<rparr>)"

section \<open>Quotation calculator\<close>

record quote =
  deviceType :: string
  quote_deviceModel :: string
  quote_customerName :: string
  customerEmail :: string
  quote_imei :: string
  faultDescription :: string
  repairCostEstimate :: number
  isBER :: bool

definition PREMIUM_RATE :: number where
  "PREMIUM_RATE = 0.15"

definition DEDUCTIBLE_FLAT :: number where
  "DEDUCTIBLE_FLAT = 250"

definition calculatedPremium :: "quote \<Rightarrow> number" where
  "calculatedPremium q = repairCostEstimate q * PREMIUM_RATE"

definition totalCustomerCost :: "quote \<Rightarrow> number" where
  "totalCustomerCost q = DEDUCTIBLE_FLAT"

section \<open>Shop profile\<close>

record profile =
  companyName :: string
  address :: string
  registrationNo :: string
  vatNo :: string
  emailPhone :: string
  bankingDetails :: string
  currency :: string
  subscription_status :: string
  subscription_start :: string

section \<open>Bookings\<close>

record part =
  part_id :: number
  name :: string
  cost :: number

record repairData =
  finalFault :: string
  diagnosticNotes :: string
  technician :: string
  partsUsed :: "part list"
  finalStatus :: string
  laborCost :: number

text \<open>
  The \<^verbatim>\<open>repairDetails\<close> field of a booking document: absent (or null), the empty object
  \<^verbatim>\<open>{}\<close> that both creation handlers write, or the form data that
  \<^verbatim>\<open>handleUpdateRepair\<close> writes.
\<close>

datatype repairDetails = Missing | EmptyObject | Details repairData

text \<open>
  A booking as the bookings view holds it: \<^verbatim>\<open>{ id: doc.id, ...doc.data() }\<close>. The fields
  that no modelled handler reads (consultant, e-mail, amount, comments, preferred date,
  urgency) are left out.
\<close>

record booking =
  booking_id :: string
  invoiceNo :: string
  customerName :: string
  customerPhone :: string
  customerAddress :: "string option"
  deviceModel :: string
  deviceIssue :: string
  imei :: string
  status :: string
  bookingType :: string
  createdAt :: string
  updatedAt :: "string option"
  repairDetails :: repairDetails

definition statusOrder :: "string list" where
  "statusOrder = [''New Request'', ''Confirmed'', ''In Progress'', ''Awaiting Parts'',
     ''Testing'', ''Ready for Collection'', ''Collected'', ''Unable To Repair'']"

subsection \<open>Grouping for the board\<close>

datatype js_error = TypeError

text \<open>
  \<^verbatim>\<open>groups\<close> starts as the object literal \<^verbatim>\<open>{}\<close>, so reading a key it does not own falls
  through to \<^verbatim>\<open>Object.prototype\<close>. These are the names found there; each holds a function
  (or, for \<^verbatim>\<open>__proto__\<close>, the prototype object), which is truthy and has no \<^verbatim>\<open>push\<close>.
\<close>

definition objectPrototypeKeys :: "string list" where
  "objectPrototypeKeys = [''constructor'', ''__defineGetter__'', ''__defineSetter__'',
     ''hasOwnProperty'', ''__lookupGetter__'', ''__lookupSetter__'', ''isPrototypeOf'',
     ''propertyIsEnumerable'', ''toString'', ''valueOf'', ''__proto__'', ''toLocaleString'']"

type_synonym groups = "(string \<times> booking list) list"

text \<open>\<^verbatim>\<open>statusOrder.reduce((acc, status) => { acc[status] = []; return acc; }, {})\<close>\<close>

definition emptyGroups :: groups where
  "emptyGroups = map (\<lambda>s. (s, [])) statusOrder"

text \<open>\<^verbatim>\<open>groups[key].push(b)\<close> on an own key.\<close>

fun push :: "groups \<Rightarrow> string \<Rightarrow> booking \<Rightarrow> groups" where
  "push [] key b = []"
| "push ((k, bucket) # g) key b =
     (if k = key then (k, bucket @ [b]) # g else (k, bucket) # push g key b)"

text \<open>
  The \<^verbatim>\<open>bookings.forEach\<close> loop, with the counter \<^verbatim>\<open>countedBookings\<close> it keeps. A status
  that names a property of \<^verbatim>\<open>Object.prototype\<close> passes the guard and then fails at
  \<^verbatim>\<open>push\<close>.
\<close>

fun forEachBooking :: "groups \<Rightarrow> nat \<Rightarrow> booking list \<Rightarrow> js_error + (groups \<times> nat)" where
  "forEachBooking g countedBookings [] = Inr (g, countedBookings)"
| "forEachBooking g countedBookings (b # bs) =
     (case map_of g (status b) of
        Some bucket \<Rightarrow> forEachBooking (push g (status b) b) (countedBookings + 1) bs
      | None \<Rightarrow>
          if status b \<in> set objectPrototypeKeys then Inl TypeError
          else forEachBooking g countedBookings bs)"

record totalRepairs =
  count :: nat
  color :: string

record grouped =
  buckets :: groups
  total_repairs :: totalRepairs

definition groupedBookings :: "booking list \<Rightarrow> js_error + grouped" where
  "groupedBookings bs =
     (let totalRepairs = length bs in
      case forEachBooking emptyGroups 0 bs of
        Inl e \<Rightarrow> Inl e
      | Inr (g, countedBookings) \<Rightarrow>
          Inr \<lparr>buckets = g,
               total_repairs = \<lparr>count = totalRepairs, color = ''bg-gray-700''\<rparr>\<rparr>)"

text \<open>The sum of the sizes of the per-status buckets.\<close>

definition bucketSizes :: "groups \<Rightarrow> nat" where
  "bucketSizes g = sum_list (map (\<lambda>kv. length (snd kv)) g)"

section \<open>The booking system as a state machine\<close>

text \<open>
  The handlers of the booking screen read and write React state and the remote document
  store. The model keeps both in one record and runs each handler as one step, its awaits
  completed in program order; what a handler leaves running without awaiting it completes
  after the handler's own statements. The bookings list is the collection itself: the
  snapshot listener replaces the local list by the collection on every change. A remote
  call is given its outcome by the caller of the step (\<open>True\<close>: the store accepts the
  request).
\<close>

record notification =
  to_phone :: string
  to_name :: string
  about_invoiceNo :: string
  about_status :: string

text \<open>The on-screen messages of the modelled handlers, by the text they show.\<close>

datatype toast =
    EnterInvoiceNumber
  | NoRepairFound string
  | RequiredFieldsMissing
  | CheckInFailed
  | BookingSubmitted
  | BookingFailed
  | SaveRepairFailed
  | InvoiceGenerated string
  | InvoiceFailed

record shopProfileSnapshot =
  snap_companyName :: string
  snap_address :: string
  snap_currency :: string
  snap_registrationNo :: string
  snap_vatNo :: string
  snap_emailPhone :: string

record invoice_doc = invoice +
  relatedBookingId :: string
  doc_shopProfile :: shopProfileSnapshot

record updateStatusData =
  usd_invoiceNo :: string
  usd_status :: string

text \<open>
  The values of the \<^verbatim>\<open>currentBooking\<close> state other than \<^verbatim>\<open>null\<close>: a booking taken from
  the list, or the object \<^verbatim>\<open>{ status: s }\<close> that
  \<^verbatim>\<open>setCurrentBooking(prev => ({ ...prev, status: s }))\<close> makes of \<^verbatim>\<open>null\<close>. Every other
  field of the latter is \<^verbatim>\<open>undefined\<close>.
\<close>

datatype current = Opened booking | StatusOnly string

record world =
  db :: bool
  userId :: "string option"
  shopProfile :: "profile option"
  bookings :: "booking list"
  invoices :: "invoice_doc list"
  notifications :: "notification list"
  toasts :: "toast list"
  updateStatusData :: updateStatusData
  currentBooking :: "current option"
  repairForm :: "repairData option"
  crashed :: bool

text \<open>\<^verbatim>\<open>!userId\<close> holds for \<^verbatim>\<open>null\<close> and for the empty string.\<close>

definition noUser :: "string option \<Rightarrow> bool" where
  "noUser u = (case u of None \<Rightarrow> True | Some s \<Rightarrow> \<not> truthy s)"

definition showToast :: "toast \<Rightarrow> world \<Rightarrow> world" where
  "showToast t w = w\<lparr>toasts := toasts w @ [t]\<rparr>"

text \<open>
  \<^verbatim>\<open>sendStatusNotification(customerPhone, customerName, invoiceNo, status)\<close>: the mock
  transport; the model records the call.
\<close>

definition message :: "notification \<Rightarrow> string" where
  "message n = ''Hello '' @ to_name n @ '', your repair #'' @ about_invoiceNo n
     @ '' is now in status: '' @ about_status n
     @ ''. We will contact you upon completion. (Digital Cafe)''"

definition sendStatusNotification ::
  "string \<Rightarrow> string \<Rightarrow> string \<Rightarrow> string \<Rightarrow> world \<Rightarrow> world" where
  "sendStatusNotification phone cname ino st w =
     w\<lparr>notifications := notifications w
          @ [\<lparr>to_phone = phone, to_name = cname, about_invoiceNo = ino, about_status = st\<rparr>]\<rparr>"

subsection \<open>The document store\<close>

text \<open>
  \<^verbatim>\<open>updateDoc(doc(db, path, id), fields)\<close> on the bookings collection: rejected when the
  request fails or no document has the id, otherwise the fields are merged into the
  document. \<^verbatim>\<open>doc(db, ...)\<close> throws without a database handle.
\<close>

definition updateDoc ::
  "bool \<Rightarrow> booking list \<Rightarrow> string \<Rightarrow> (booking \<Rightarrow> booking) \<Rightarrow> bool \<Rightarrow> booking list option" where
  "updateDoc dbh bs i upd ok =
     (if dbh \<and> ok \<and> i \<in> booking_id ` set bs
      then Some (map (\<lambda>b. if booking_id b = i then upd b else b) bs)
      else None)"

text \<open>
  \<^verbatim>\<open>addDoc(collection(db, path), data)\<close>: rejected when the request fails, otherwise the
  document is added under the id the store generates.
\<close>

definition addDoc :: "bool \<Rightarrow> 'a list \<Rightarrow> 'a \<Rightarrow> bool \<Rightarrow> 'a list option" where
  "addDoc dbh docs d ok = (if dbh \<and> ok then Some (docs @ [d]) else None)"

subsection \<open>Rendering\<close>

text \<open>
  The initial state of the repair form, \<^verbatim>\<open>useState(booking.repairDetails || {...})\<close>. The
  empty object is truthy, so it becomes the state as it is, and the body of the component
  then reads \<^verbatim>\<open>repairData.partsUsed.reduce\<close> of it, which throws: \<open>None\<close>. The object
  \<^verbatim>\<open>{ status: s }\<close> has no repair details and gets the defaults.
\<close>

definition defaultRepairData :: "string \<Rightarrow> repairData" where
  "defaultRepairData st =
     \<lparr>finalFault = [], diagnosticNotes = [], technician = [],
      partsUsed = [\<lparr>part_id = 1, name = [], cost = 0\<rparr>],
      finalStatus = st,
      laborCost = 350\<rparr>"

fun initialRepairData :: "current \<Rightarrow> repairData option" where
  "initialRepairData (Opened b) =
     (case repairDetails b of
        Details rd \<Rightarrow> Some rd
      | EmptyObject \<Rightarrow> None
      | Missing \<Rightarrow> Some (defaultRepairData (status b)))"
| "initialRepairData (StatusOnly s) = Some (defaultRepairData s)"

text \<open>
  \<^verbatim>\<open>RepairFormModal\<close> and its wrapper are declared inside the body of
  \<^verbatim>\<open>BookingSystem\<close>, so each render of the screen makes them new components: the form
  is unmounted and mounted again, and its state starts over from the current booking.
\<close>

definition mountForm :: "world \<Rightarrow> world" where
  "mountForm w =
     (case currentBooking w of
        None \<Rightarrow> w\<lparr>repairForm := None\<rparr>
      | Some cb \<Rightarrow>
          (case initialRepairData cb of
             None \<Rightarrow> w\<lparr>repairForm := None, crashed := True\<rparr>
           | Some rd \<Rightarrow> w\<lparr>repairForm := Some rd\<rparr>))"

text \<open>
  A render of the booking screen, which follows every change of its state (the bookings
  list, the current booking, the data of the status tool). It recomputes
  \<^verbatim>\<open>groupedBookings\<close>, where an exception takes the screen down, and mounts the form. A
  change of the state of the form alone renders the form only and keeps its state.
\<close>

definition rerender :: "world \<Rightarrow> world" where
  "rerender w =
     (case groupedBookings (bookings w) of
        Inl e \<Rightarrow> w\<lparr>crashed := True\<rparr>
      | Inr g \<Rightarrow> mountForm w)"

subsection \<open>Status writes\<close>

text \<open>\<^verbatim>\<open>currentBooking && currentBooking.id === id\<close>\<close>

fun seesBooking :: "current option \<Rightarrow> string \<Rightarrow> bool" where
  "seesBooking None i = False"
| "seesBooking (Some (Opened cb)) i = (booking_id cb = i)"
| "seesBooking (Some (StatusOnly s)) i = False"

text \<open>\<^verbatim>\<open>prev => ({ ...prev, status: newStatus })\<close>\<close>

fun spreadStatus :: "string \<Rightarrow> current option \<Rightarrow> current" where
  "spreadStatus newStatus None = StatusOnly newStatus"
| "spreadStatus newStatus (Some (Opened p)) = Opened (p\<lparr>status := newStatus\<rparr>)"
| "spreadStatus newStatus (Some (StatusOnly s)) = StatusOnly newStatus"

text \<open>
  \<^verbatim>\<open>updateBookingStatus(id, newStatus)\<close>. The test of \<^verbatim>\<open>currentBooking\<close> reads the value
  the function closed over, \<open>seen\<close>; the update of the state reads the state of the
  moment.
\<close>

definition updateBookingStatusIn ::
  "current option \<Rightarrow> string \<Rightarrow> string \<Rightarrow> string \<Rightarrow> bool \<Rightarrow> world \<Rightarrow> world" where
  "updateBookingStatusIn seen i newStatus now ok w =
     (if \<not> db w \<or> noUser (userId w) then w
      else case updateDoc (db w) (bookings w) i
                  (\<lambda>b. b\<lparr>status := newStatus, updatedAt := Some now\<rparr>) ok of
        None \<Rightarrow> w
      | Some bs \<Rightarrow>
          if seesBooking seen i
          then w\<lparr>bookings := bs,
                 currentBooking := Some (spreadStatus newStatus (currentBooking w))\<rparr>
          else w\<lparr>bookings := bs\<rparr>)"

text \<open>Called and awaited in one step, the function has closed over the state of the step.\<close>

definition updateBookingStatus :: "string \<Rightarrow> string \<Rightarrow> string \<Rightarrow> bool \<Rightarrow> world \<Rightarrow> world" where
  "updateBookingStatus i newStatus now ok w =
     updateBookingStatusIn (currentBooking w) i newStatus now ok w"

text \<open>The options of the select of the "Update Repair Status" tool.\<close>

definition toolOptions :: "string list" where
  "toolOptions = filter (\<lambda>s. s \<noteq> ''New Request'') statusOrder"

definition initialUpdateStatusData :: updateStatusData where
  "initialUpdateStatusData = \<lparr>usd_invoiceNo = [], usd_status = ''Confirmed''\<rparr>"

definition handleUpdateStatusTool :: "string \<Rightarrow> bool \<Rightarrow> world \<Rightarrow> world" where
  "handleUpdateStatusTool now ok w =
     (if \<not> truthy (usd_invoiceNo (updateStatusData w)) then showToast EnterInvoiceNumber w
      else case find (\<lambda>b. invoiceNo b = usd_invoiceNo (updateStatusData w)) (bookings w) of
        None \<Rightarrow> showToast (NoRepairFound (usd_invoiceNo (updateStatusData w))) w
      | Some bookingToUpdate \<Rightarrow>
          (let st = usd_status (updateStatusData w);
               w1 = updateBookingStatus (booking_id bookingToUpdate) st now ok w;
               w2 = sendStatusNotification (customerPhone bookingToUpdate)
                      (customerName bookingToUpdate) (invoiceNo bookingToUpdate) st w1
           in rerender (w2\<lparr>updateStatusData := initialUpdateStatusData\<rparr>)))"

subsection \<open>Creating bookings\<close>

record walkInForm =
  wi_invoiceNo :: string
  wi_customerName :: string
  wi_customerPhone :: string
  wi_deviceModel :: string
  wi_deviceIssue :: string
  wi_imei :: string

record onlineForm =
  ol_customerName :: string
  ol_customerPhone :: string
  ol_deviceModel :: string
  ol_deviceIssue :: string
  ol_imei :: string

text \<open>
  \<^verbatim>\<open>handleCheckIn\<close>. \<open>now\<close> is the clock reading \<^verbatim>\<open>new Date().toISOString()\<close>, \<open>newId\<close> the
  id the store gives the document.
\<close>

definition handleCheckIn :: "walkInForm \<Rightarrow> string \<Rightarrow> string \<Rightarrow> bool \<Rightarrow> world \<Rightarrow> world" where
  "handleCheckIn formData now newId ok w =
     (if \<not> truthy (wi_customerName formData) \<or> \<not> truthy (wi_customerPhone formData)
         \<or> \<not> truthy (wi_deviceModel formData)
      then showToast RequiredFieldsMissing w
      else
        (let newBooking =
               \<lparr>booking_id = newId,
                invoiceNo = wi_invoiceNo formData,
                customerName = wi_customerName formData,
                customerPhone = wi_customerPhone formData,
                customerAddress = None,
                deviceModel = wi_deviceModel formData,
                deviceIssue = wi_deviceIssue formData,
                imei = wi_imei formData,
                status = ''Confirmed'',
                bookingType = ''Walk-in'',
                createdAt = now,
                updatedAt = None,
                repairDetails = EmptyObject\<rparr>
         in case addDoc (db w) (bookings w) newBooking ok of
              None \<Rightarrow> showToast CheckInFailed w
            | Some bs \<Rightarrow>
                rerender
                  (sendStatusNotification (customerPhone newBooking) (customerName newBooking)
                     (invoiceNo newBooking) (status newBooking) (w\<lparr>bookings := bs\<rparr>))))"

text \<open>
  \<^verbatim>\<open>handleBooking\<close>. \<open>rnd\<close> is the decimal text of
  \<^verbatim>\<open>Math.floor(Math.random() * 10000)\<close>.
\<close>

definition handleBooking ::
  "onlineForm \<Rightarrow> string \<Rightarrow> string \<Rightarrow> string \<Rightarrow> bool \<Rightarrow> world \<Rightarrow> world" where
  "handleBooking formData rnd now newId ok w =
     (if \<not> truthy (ol_customerName formData) \<or> \<not> truthy (ol_customerPhone formData)
         \<or> \<not> truthy (ol_deviceModel formData)
      then showToast RequiredFieldsMissing w
      else
        (let newBooking =
               \<lparr>booking_id = newId,
                invoiceNo = ''REQ-'' @ rnd,
                customerName = ol_customerName formData,
                customerPhone = ol_customerPhone formData,
                customerAddress = None,
                deviceModel = ol_deviceModel formData,
                deviceIssue = ol_deviceIssue formData,
                imei = ol_imei formData,
                status = ''New Request'',
                bookingType = ''Online'',
                createdAt = now,
                updatedAt = None,
                repairDetails = EmptyObject\<rparr>
         in case addDoc (db w) (bookings w) newBooking ok of
              None \<Rightarrow> showToast BookingFailed w
            | Some bs \<Rightarrow>
                rerender
                  (showToast BookingSubmitted
                     (sendStatusNotification (customerPhone newBooking)
                        (customerName newBooking) (invoiceNo newBooking) (status newBooking)
                        (w\<lparr>bookings := bs\<rparr>)))))"

subsection \<open>The repair form\<close>

text \<open>The columns of the board; only their cards are drawn and can be clicked.\<close>

definition boardColumns :: "string list" where
  "boardColumns =
     filter (\<lambda>s. s \<noteq> ''Collected'' \<and> s \<noteq> ''Unable To Repair'') statusOrder"

text \<open>\<^verbatim>\<open>openRepairForm\<close>: \<^verbatim>\<open>setCurrentBooking(booking)\<close>, and the render that mounts the form.\<close>

definition openRepairForm :: "booking \<Rightarrow> world \<Rightarrow> world" where
  "openRepairForm b w = rerender (w\<lparr>currentBooking := Some (Opened b)\<rparr>)"

text \<open>\<^verbatim>\<open>onClose\<close>: \<^verbatim>\<open>setCurrentBooking(null)\<close>, which unmounts the form.\<close>

definition onClose :: "world \<Rightarrow> world" where
  "onClose w = w\<lparr>currentBooking := None, repairForm := None\<rparr>"

definition handlePartChange :: "number \<Rightarrow> (part \<Rightarrow> part) \<Rightarrow> repairData \<Rightarrow> repairData" where
  "handlePartChange i change rd =
     rd\<lparr>partsUsed := map (\<lambda>p. if part_id p = i then change p else p) (partsUsed rd)\<rparr>"

definition handleAddPart :: "number \<Rightarrow> repairData \<Rightarrow> repairData" where
  "handleAddPart dateNow rd =
     rd\<lparr>partsUsed := partsUsed rd @ [\<lparr>part_id = dateNow, name = [], cost = 0\<rparr>]\<rparr>"

definition handleRemovePart :: "number \<Rightarrow> repairData \<Rightarrow> repairData" where
  "handleRemovePart i rd = rd\<lparr>partsUsed := filter (\<lambda>p. part_id p \<noteq> i) (partsUsed rd)\<rparr>"

text \<open>
  \<^verbatim>\<open>handleUpdateRepair\<close>. The write of the repair details is awaited. The status write
  behind \<^verbatim>\<open>onUpdate(newStatus)\<close> is not: it is started, \<^verbatim>\<open>onClose()\<close> runs, and the write
  completes afterwards, having closed over the booking the form was opened for, so that it
  updates the state \<^verbatim>\<open>null\<close> and the form opens again on \<^verbatim>\<open>{ status: newStatus }\<close>. For
  that object, \<^verbatim>\<open>doc(db, path, undefined)\<close> throws before anything is written.
\<close>

definition handleUpdateRepair :: "string \<Rightarrow> bool \<Rightarrow> bool \<Rightarrow> world \<Rightarrow> world" where
  "handleUpdateRepair now ok1 ok2 w =
     (case (currentBooking w, repairForm w) of
        (Some (Opened b), Some rd) \<Rightarrow>
          (let newStatus = finalStatus rd in
           case updateDoc (db w) (bookings w) (booking_id b)
                  (\<lambda>x. x\<lparr>repairDetails := Details rd, status := newStatus,
                          updatedAt := Some now\<rparr>) ok1 of
             None \<Rightarrow> showToast SaveRepairFailed w
           | Some bs \<Rightarrow>
               rerender
                 (updateBookingStatusIn (Some (Opened b)) (booking_id b) newStatus now ok2
                    (onClose (w\<lparr>bookings := bs\<rparr>))))
      | (Some (StatusOnly s), Some rd) \<Rightarrow> showToast SaveRepairFailed w
      | _ \<Rightarrow> w)"

text \<open>
  \<^verbatim>\<open>handleNotifyCustomer\<close>. The template string of the message prints an undefined field
  as \<^verbatim>\<open>undefined\<close>.
\<close>

definition handleNotifyCustomer :: "world \<Rightarrow> world" where
  "handleNotifyCustomer w =
     (case (currentBooking w, repairForm w) of
        (Some (Opened b), Some rd) \<Rightarrow>
          sendStatusNotification (customerPhone b) (customerName b) (invoiceNo b)
            (finalStatus rd) w
      | (Some (StatusOnly s), Some rd) \<Rightarrow>
          sendStatusNotification ''undefined'' ''undefined'' ''undefined'' (finalStatus rd) w
      | _ \<Rightarrow> w)"

subsection \<open>From a repair to an invoice\<close>

text \<open>
  \<open>fresh k\<close> is the value of the \<open>k\<close>-th evaluation of \<^verbatim>\<open>Date.now() + Math.random()\<close>
  in the handler. \<^verbatim>\<open>parseFloat\<close> of a number is that number.
\<close>

definition partsCostItems :: "(nat \<Rightarrow> number) \<Rightarrow> part list \<Rightarrow> item list" where
  "partsCostItems fresh ps =
     map (\<lambda>(k, p).
            \<lparr>item_id = fresh k,
             description = ''Part: '' @ name p,
             qty = 1,
             unitPrice = orZero (cost p),
             item_total = orZero (cost p)\<rparr>)
         (enumerate 0 (filter (\<lambda>p. cost p > 0 \<and> truthy (name p)) ps))"

definition laborItem :: "(nat \<Rightarrow> number) \<Rightarrow> nat \<Rightarrow> booking \<Rightarrow> repairData \<Rightarrow> item" where
  "laborItem fresh k b rd =
     \<lparr>item_id = fresh k + 1,
      description =
        ''Labor: '' @ (if truthy (finalFault rd) then finalFault rd else deviceIssue b),
      qty = 1,
      unitPrice = orZero (laborCost rd),
      item_total = orZero (laborCost rd)\<rparr>"

definition newInvoice ::
  "booking \<Rightarrow> repairData \<Rightarrow> profile \<Rightarrow> (nat \<Rightarrow> number) \<Rightarrow> string \<Rightarrow> invoice_doc" where
  "newInvoice b rd prof fresh now =
     (let parts = partsCostItems fresh (partsUsed rd);
          invoiceItems = laborItem fresh (length parts) b rd # parts;
          sub = foldl (\<lambda>sum it. sum + item_total it) 0 invoiceItems;
          rate = 15;
          tax = sub * (rate / 100);
          tot = sub + tax
      in \<lparr>inv_invoiceNo = ''INV-REP-'' @ invoiceNo b,
          inv_date = take 10 now,
          inv_customerName = customerName b,
          inv_customerAddress =
            (case customerAddress b of
               None \<Rightarrow> ''N/A''
             | Some a \<Rightarrow> if truthy a then a else ''N/A''),
          inv_customerPhone = customerPhone b,
          billTo = deviceModel b,
          items = invoiceItems,
          subtotal = sub,
          taxRate = rate,
          taxAmount = tax,
          isVatExempt = False,
          totalAmount = tot,
          inv_bankingDetails = bankingDetails prof,
          inv_status = ''Sent'',
          relatedBookingId = booking_id b,
          doc_shopProfile =
            \<lparr>snap_companyName = companyName prof,
             snap_address = address prof,
             snap_currency = currency prof,
             snap_registrationNo = registrationNo prof,
             snap_vatNo = vatNo prof,
             snap_emailPhone = emailPhone prof\<rparr>\<rparr>)"

text \<open>
  \<^verbatim>\<open>handleGenerateInvoice\<close>. For the object \<^verbatim>\<open>{ status: s }\<close> the invoice would hold
  undefined fields, which \<^verbatim>\<open>addDoc\<close> refuses before anything is written.
\<close>

definition handleGenerateInvoice ::
  "(nat \<Rightarrow> number) \<Rightarrow> string \<Rightarrow> bool \<Rightarrow> bool \<Rightarrow> world \<Rightarrow> world" where
  "handleGenerateInvoice fresh now okInvoice okStatus w =
     (case (currentBooking w, repairForm w) of
        (Some (Opened b), Some rd) \<Rightarrow>
          (if \<not> db w \<or> noUser (userId w) then w
           else case shopProfile w of
             None \<Rightarrow> w
           | Some prof \<Rightarrow>
               (let doc = newInvoice b rd prof fresh now in
                case addDoc (db w) (invoices w) doc okInvoice of
                  None \<Rightarrow> showToast InvoiceFailed w
                | Some invs \<Rightarrow>
                    rerender
                      (onClose
                        (showToast (InvoiceGenerated (inv_invoiceNo doc))
                          (sendStatusNotification (customerPhone b) (customerName b)
                             (invoiceNo b) ''Collected (Invoice Sent)''
                             (updateBookingStatus (booking_id b) ''Collected'' now okStatus
                                (w\<lparr>invoices := invs\<rparr>)))))))
      | (Some (StatusOnly s), Some rd) \<Rightarrow>
          (if \<not> db w \<or> noUser (userId w) \<or> shopProfile w = None then w
           else showToast InvoiceFailed w)
      | _ \<Rightarrow> w)"

subsection \<open>Events and steps\<close>

text \<open>
  What the user can do on the booking screen. A select offers its options only, so choosing
  is by position in the option list. The buttons carry what the environment decides during
  the handler: clock readings, generated ids and the outcome of each remote call. A click
  on a card says whether the booking of the card is the very object that
  \<^verbatim>\<open>currentBooking\<close> holds: React skips the render when a state is set to the object it
  already is. \<open>Rerender\<close> is a render of the screen for a reason outside its handlers
  (its props change, the store pushes a snapshot).
\<close>

datatype event =
    ClickCheckIn walkInForm string string bool
  | ClickSubmitBooking onlineForm string string string bool
  | TypeInvoiceNo string
  | SelectStatus nat
  | ClickUpdateStatus string bool
  | ClickCard nat bool
  | EditDiagnosticNotes string
  | EditFinalFault string
  | EditTechnician string
  | EditLaborCost number
  | EditPartName number string
  | EditPartCost number number
  | ClickAddPart number
  | ClickRemovePart number
  | SelectFinalStatus nat
  | ClickNotifyCustomer
  | ClickUpdateRepair string bool bool
  | ClickGenerateInvoice bool "nat \<Rightarrow> number" string bool bool
  | Rerender

definition editForm :: "(repairData \<Rightarrow> repairData) \<Rightarrow> world \<Rightarrow> world" where
  "editForm f w =
     (case repairForm w of None \<Rightarrow> w | Some rd \<Rightarrow> w\<lparr>repairForm := Some (f rd)\<rparr>)"

text \<open>
  The button "Generate Invoice" is disabled while \<^verbatim>\<open>totalEstimatedCost === 0\<close>, a sum
  of the costs in floating point. When every cost is zero the sum is zero; otherwise
  whether the computed sum is zero is a matter of rounding, and the click says so
  (\<open>sumIsZero\<close>).
\<close>

definition generateDisabled :: "bool \<Rightarrow> repairData \<Rightarrow> bool" where
  "generateDisabled sumIsZero rd =
     ((list_all (\<lambda>p. orZero (cost p) = 0) (partsUsed rd) \<and> orZero (laborCost rd) = 0)
      \<or> sumIsZero)"

fun handle :: "event \<Rightarrow> world \<Rightarrow> world" where
  "handle (ClickCheckIn formData now newId ok) w = handleCheckIn formData now newId ok w"
| "handle (ClickSubmitBooking formData rnd now newId ok) w =
     handleBooking formData rnd now newId ok w"
| "handle (TypeInvoiceNo s) w =
     rerender (w\<lparr>updateStatusData := (updateStatusData w)\<lparr>usd_invoiceNo := s\<rparr>\<rparr>)"
| "handle (SelectStatus k) w =
     (if k < length toolOptions
      then rerender
             (w\<lparr>updateStatusData := (updateStatusData w)\<lparr>usd_status := toolOptions ! k\<rparr>\<rparr>)
      else w)"
| "handle (ClickUpdateStatus now ok) w = handleUpdateStatusTool now ok w"
| "handle (ClickCard k sameObject) w =
     (if k < length (bookings w) \<and> status (bookings w ! k) \<in> set boardColumns
      then if sameObject \<and> currentBooking w = Some (Opened (bookings w ! k)) then w
           else openRepairForm (bookings w ! k) w
      else w)"
| "handle (EditDiagnosticNotes s) w = editForm (\<lambda>rd. rd\<lparr>diagnosticNotes := s\<rparr>) w"
| "handle (EditFinalFault s) w = editForm (\<lambda>rd. rd\<lparr>finalFault := s\<rparr>) w"
| "handle (EditTechnician s) w = editForm (\<lambda>rd. rd\<lparr>technician := s\<rparr>) w"
| "handle (EditLaborCost v) w = editForm (\<lambda>rd. rd\<lparr>laborCost := orZero v\<rparr>) w"
| "handle (EditPartName i s) w = editForm (handlePartChange i (\<lambda>p. p\<lparr>name := s\<rparr>)) w"
| "handle (EditPartCost i v) w =
     editForm (handlePartChange i (\<lambda>p. p\<lparr>cost := orZero v\<rparr>)) w"
| "handle (ClickAddPart dateNow) w = editForm (handleAddPart dateNow) w"
| "handle (ClickRemovePart i) w = editForm (handleRemovePart i) w"
| "handle (SelectFinalStatus k) w =
     (if k < length statusOrder
      then editForm (\<lambda>rd. rd\<lparr>finalStatus := statusOrder ! k\<rparr>) w
      else w)"
| "handle ClickNotifyCustomer w = handleNotifyCustomer w"
| "handle (ClickUpdateRepair now ok1 ok2) w = handleUpdateRepair now ok1 ok2 w"
| "handle (ClickGenerateInvoice sumIsZero fresh now okInvoice okStatus) w =
     (case repairForm w of
        None \<Rightarrow> w
      | Some rd \<Rightarrow>
          if generateDisabled sumIsZero rd then w
          else handleGenerateInvoice fresh now okInvoice okStatus w)"
| "handle Rerender w = rerender w"

text \<open>Once the screen is down it takes no more events.\<close>

definition step :: "world \<Rightarrow> event \<Rightarrow> world" where
  "step w ev = (if crashed w then w else handle ev w)"

definition run :: "world \<Rightarrow> event list \<Rightarrow> world" where
  "run w evs = foldl step w evs"

text \<open>The booking screen when it mounts, before the first snapshot of the collection.\<close>

definition initialWorld :: "bool \<Rightarrow> string option \<Rightarrow> profile option \<Rightarrow> world" where
  "initialWorld dbh uid prof =
     \<lparr>db = dbh, userId = uid, shopProfile = prof, bookings = [], invoices = [],
      notifications = [], toasts = [], updateStatusData = initialUpdateStatusData,
      currentBooking = None, repairForm = None, crashed = False\<rparr>"

text \<open>
  The status invariant of the booking screen: every stored status, every status a stored
  repair form would write back, the status of the current booking and every status held
  in the two status pickers, is one of \<open>statusOrder\<close>.
\<close>

definition closedBooking :: "booking \<Rightarrow> bool" where
  "closedBooking b =
     (status b \<in> set statusOrder \<and>
      (case repairDetails b of
         Details rd \<Rightarrow> finalStatus rd \<in> set statusOrder
       | _ \<Rightarrow> True))"

fun closedCurrent :: "current \<Rightarrow> bool" where
  "closedCurrent (Opened b) = closedBooking b"
| "closedCurrent (StatusOnly s) = (s \<in> set statusOrder)"

definition closedWorld :: "world \<Rightarrow> bool" where
  "closedWorld w =
     (list_all closedBooking (bookings w) \<and>
      usd_status (updateStatusData w) \<in> set toolOptions \<and>
      (case currentBooking w of None \<Rightarrow> True | Some cb \<Rightarrow> closedCurrent cb) \<and>
      (case repairForm w of None \<Rightarrow> True | Some rd \<Rightarrow> finalStatus rd \<in> set statusOrder))"

text \<open>The events of the "Update Repair Status" tool: typing, choosing, clicking.\<close>

fun toolEvent :: "event \<Rightarrow> bool" where
  "toolEvent (TypeInvoiceNo s) = True"
| "toolEvent (SelectStatus k) = True"
| "toolEvent (ClickUpdateStatus now ok) = True"
| "toolEvent ev = False"

text \<open>
  A booking \<open>b'\<close> is the later state of the booking \<open>b\<close> and has not gone back to
  "New Request".
\<close>

definition notReset :: "booking \<Rightarrow> booking \<Rightarrow> bool" where
  "notReset b b' =
     (booking_id b' = booking_id b \<and> (status b' = ''New Request'' \<longrightarrow> status b = ''New Request''))"

section \<open>Saving a quotation\<close>

record quoteProfileSnapshot =
  qsnap_companyName :: string
  qsnap_address :: string
  qsnap_currency :: string
  qsnap_registrationNo :: string
  qsnap_emailPhone :: string

record quotation_doc = quote +
  doc_calculatedPremium :: number
  doc_totalCustomerCost :: number
  generatedDate :: string
  quote_status :: string
  quote_shopProfile :: quoteProfileSnapshot

datatype save_result = NotSaved | Saved "quotation_doc list" | SaveFailed

definition handleSaveQuote ::
  "bool \<Rightarrow> bool \<Rightarrow> bool \<Rightarrow> quote \<Rightarrow> profile \<Rightarrow> string \<Rightarrow> bool
     \<Rightarrow> quotation_doc list \<Rightarrow> save_result" where
  "handleSaveQuote quotationVisible isSaving dbh q shopDetails now ok quotations =
     (if \<not> quotationVisible \<or> isSaving then NotSaved
      else
        case addDoc dbh quotations
               (quote.extend q
                  \<lparr>doc_calculatedPremium = calculatedPremium q,
                   doc_totalCustomerCost = totalCustomerCost q,
                   generatedDate = now,
                   quote_status = (if isBER q then ''BER Report'' else ''Quote Draft''),
                   quote_shopProfile =
                     \<lparr>qsnap_companyName = companyName shopDetails,
                      qsnap_address = address shopDetails,
                      qsnap_currency = currency shopDetails,
                      qsnap_registrationNo = registrationNo shopDetails,
                      qsnap_emailPhone = emailPhone shopDetails\<rparr>\<rparr>) ok of
          None \<Rightarrow> SaveFailed
        | Some qs \<Rightarrow> Saved qs)"

section \<open>Profile bootstrap\<close>

text \<open>
  \<^verbatim>\<open>initializeProfile\<close>. The profile document of the tenant is \<open>None\<close> when it does not
  exist. The result is the document afterwards, the \<^verbatim>\<open>shopProfile\<close> state and whether
  the error message was set.
\<close>

definition initialProfile :: "string \<Rightarrow> profile" where
  "initialProfile now =
     \<lparr>companyName = ''Digital Cafe'',
      address = ''123 Main Street, Cape Town'',
      registrationNo = ''2023/123456/07'',
      vatNo = ''4012345678'',
      emailPhone = ''+27 82 555 1234'',
      bankingDetails = ''FNB, Account: 620XXXXXXX, Branch: 250655'',
      currency = ''ZAR'',
      subscription_status = ''active'',
      subscription_start = now\<rparr>"

record bootstrap =
  profileDoc :: "profile option"
  shopProfileState :: "profile option"
  authError :: bool
  writes :: nat

definition initializeProfile ::
  "profile option \<Rightarrow> string \<Rightarrow> bool \<Rightarrow> bool \<Rightarrow> bootstrap" where
  "initializeProfile remote now getOk setOk =
     (if \<not> getOk
      then \<lparr>profileDoc = remote, shopProfileState = None, authError = True, writes = 0\<rparr>
      else case remote of
        None \<Rightarrow>
          if setOk
          then \<lparr>profileDoc = Some (initialProfile now),
                shopProfileState = Some (initialProfile now), authError = False, writes = 1\<rparr>
          else \<lparr>profileDoc = None, shopProfileState = None, authError = True, writes = 0\<rparr>
      | Some p \<Rightarrow>
          \<lparr>profileDoc = Some p, shopProfileState = Some p, authError = False, writes = 0\<rparr>)"

section \<open>Example data\<close>

definition exampleBooking :: booking where
  "exampleBooking =
     \<lparr>booking_id = ''b1'', invoiceNo = ''INV-1'', customerName = ''Ann'',
      customerPhone = ''0820000000'', customerAddress = None, deviceModel = ''Phone'',
      deviceIssue = ''No power'', imei = ''356'', status = ''In Progress'',
      bookingType = ''Walk-in'', createdAt = ''2025-01-01T08:00:00.000Z'', updatedAt = None,
      repairDetails = Missing\<rparr>"

definition exampleRepairData :: repairData where
  "exampleRepairData =
     \<lparr>finalFault = ''Cracked screen'', diagnosticNotes = [], technician = ''Sam'',
      partsUsed = [\<lparr>part_id = 1, name = ''Screen'', cost = 800\<rparr>,
                   \<lparr>part_id = 2, name = [], cost = 50\<rparr>,
                   \<lparr>part_id = 3, name = ''Glue'', cost = 0\<rparr>],
      finalStatus = ''Testing'', laborCost = 350\<rparr>"

definition exampleWorld :: world where
  "exampleWorld =
     \<lparr>db = True, userId = Some ''tenant-1'',
      shopProfile = Some (initialProfile ''2025-01-01T00:00:00.000Z''),
      bookings = [exampleBooking], invoices = [], notifications = [], toasts = [],
      updateStatusData = \<lparr>usd_invoiceNo = ''INV-1'', usd_status = ''Testing''\<rparr>,
      currentBooking = Some (Opened exampleBooking), repairForm = Some exampleRepairData,
      crashed = False\<rparr>"

section \<open>Properties of the invoice totals\<close>

lemma foldl_line_totals:
  "foldl (\<lambda>sum it. sum + qty it * unitPrice it) a xs
     = a + (\<Sum>it\<leftarrow>xs. qty it * unitPrice it)"
  by (induction xs arbitrary: a) simp_all

text \<open>
  Claim C3. For every line-item list, VAT-exempt flag and tax rate, the totals calculator
  stores subtotal = sum over the items of qty * unitPrice, tax = 0 when VAT-exempt and
  subtotal * (taxRate / 100) otherwise, and total = subtotal + tax. In particular one item
  with qty 2 and unit price 100, at tax rate 15 and not exempt, gives 200, 30 and 230.
\<close>

theorem calculateTotals_correct:
  "subtotal (calculateTotals its ex r prev) = (\<Sum>it\<leftarrow>its. qty it * unitPrice it)
   \<and> taxAmount (calculateTotals its ex r prev)
       = (if ex then 0 else (\<Sum>it\<leftarrow>its. qty it * unitPrice it) * (r / 100))
   \<and> totalAmount (calculateTotals its ex r prev)
       = subtotal (calculateTotals its ex r prev) + taxAmount (calculateTotals its ex r prev)
   \<and> subtotal (calculateTotals
         [\<lparr>item_id = 1, description = d, qty = 2, unitPrice = 100, item_total = t\<rparr>]
         False 15 prev) = 200
   \<and> taxAmount (calculateTotals
         [\<lparr>item_id = 1, description = d, qty = 2, unitPrice = 100, item_total = t\<rparr>]
         False 15 prev) = 30
   \<and> totalAmount (calculateTotals
         [\<lparr>item_id = 1, description = d, qty = 2, unitPrice = 100, item_total = t\<rparr>]
         False 15 prev) = 230"
  by (simp add: calculateTotals_def Let_def foldl_line_totals)

theorem calculateTotals_correct_witness:
  "taxAmount (calculateTotals
      [\<lparr>item_id = 1, description = ''Screen'', qty = 3, unitPrice = 50, item_total = 150\<rparr>,
       \<lparr>item_id = 2, description = ''Labour'', qty = 1, unitPrice = 350, item_total = 350\<rparr>]
      True 15
      \<lparr>inv_invoiceNo = ''INV-1'', inv_date = ''2025-01-01'', inv_customerName = ''A'',
       inv_customerAddress = [], inv_customerPhone = [], billTo = [], items = [],
       subtotal = 0, taxRate = 15, taxAmount = 0, isVatExempt = False, totalAmount = 0,
       inv_bankingDetails = [], inv_status = ''Draft''\<rparr>) = 0
   \<and> totalAmount (calculateTotals
      [\<lparr>item_id = 1, description = ''Screen'', qty = 3, unitPrice = 50, item_total = 150\<rparr>,
       \<lparr>item_id = 2, description = ''Labour'', qty = 1, unitPrice = 350, item_total = 350\<rparr>]
      True 15
      \<lparr>inv_invoiceNo = ''INV-1'', inv_date = ''2025-01-01'', inv_customerName = ''A'',
       inv_customerAddress = [], inv_customerPhone = [], billTo = [], items = [],
       subtotal = 0, taxRate = 15, taxAmount = 0, isVatExempt = False, totalAmount = 0,
       inv_bankingDetails = [], inv_status = ''Draft''\<rparr>) = 500"
  using calculateTotals_correct
    [of "[\<lparr>item_id = 1, description = ''Screen'', qty = 3, unitPrice = 50, item_total = 150\<rparr>,
       \<lparr>item_id = 2, description = ''Labour'', qty = 1, unitPrice = 350, item_total = 350\<rparr>]"
      True 15
      "\<lparr>inv_invoiceNo = ''INV-1'', inv_date = ''2025-01-01'', inv_customerName = ''A'',
       inv_customerAddress = [], inv_customerPhone = [], billTo = [], items = [],
       subtotal = 0, taxRate = 15, taxAmount = 0, isVatExempt = False, totalAmount = 0,
       inv_bankingDetails = [], inv_status = ''Draft''\<rparr>"]
  by simp

section \<open>Properties of the grouping\<close>

lemma push_keys: "map fst (push g key b) = map fst g"
  by (induction g key b rule: push.induct) auto

lemma push_sizes:
  "map_of g key = Some bucket \<Longrightarrow> bucketSizes (push g key b) = bucketSizes g + 1"
  by (induction g key b rule: push.induct) (auto simp: bucketSizes_def split: if_splits)

lemma push_absent: "key \<notin> fst ` set g \<Longrightarrow> push g key b = g"
  by (induction g key b rule: push.induct) auto

lemma push_bucket:
  "distinct (map fst g) \<Longrightarrow>
   push g key b = map (\<lambda>kv. (fst kv, if fst kv = key then snd kv @ [b] else snd kv)) g"
proof (induction g key b rule: push.induct)
  case (1 key b)
  then show ?case by simp
next
  case (2 k bucket g key b)
  show ?case
  proof (cases "k = key")
    case True
    with 2 have "key \<notin> fst ` set g" by simp
    then have "map (\<lambda>kv. (fst kv, if fst kv = key then snd kv @ [b] else snd kv)) g = g"
      by (induction g) auto
    with True show ?thesis by simp
  next
    case False
    with 2 show ?thesis by simp
  qed
qed

lemma forEachBooking_counts:
  "forEachBooking g c bs = Inr (g', c') \<Longrightarrow>
     map fst g' = map fst g
     \<and> bucketSizes g' = bucketSizes g + length (filter (\<lambda>b. status b \<in> set (map fst g)) bs)
     \<and> c' = c + length (filter (\<lambda>b. status b \<in> set (map fst g)) bs)"
proof (induction g c bs rule: forEachBooking.induct)
  case (1 g c)
  then show ?case by simp
next
  case (2 g c b bs)
  show ?case
  proof (cases "map_of g (status b)")
    case None
    then have nk: "status b \<notin> fst ` set g"
      by (simp add: map_of_eq_None_iff)
    from None 2 show ?thesis
      by (simp add: nk split: if_splits)
  next
    case (Some bucket)
    then have k: "status b \<in> fst ` set g"
      by (metis map_of_eq_None_iff option.distinct(1))
    from Some 2 show ?thesis
      by (simp add: k push_keys push_sizes)
  qed
qed

text \<open>Each bucket receives, in the order of the list, the bookings that carry its key.\<close>

lemma forEachBooking_buckets:
  "distinct (map fst g) \<Longrightarrow> forEachBooking g c bs = Inr (g', c') \<Longrightarrow>
     g' = map (\<lambda>kv. (fst kv, snd kv @ filter (\<lambda>b. status b = fst kv) bs)) g"
proof (induction g c bs rule: forEachBooking.induct)
  case (1 g c)
  then show ?case by (simp add: map_idI)
next
  case (2 g c b bs)
  show ?case
  proof (cases "map_of g (status b)")
    case None
    then have nk: "status b \<notin> fst ` set g"
      by (simp add: map_of_eq_None_iff)
    from None 2 have "g' = map (\<lambda>kv. (fst kv, snd kv @ filter (\<lambda>b. status b = fst kv) bs)) g"
      by (simp split: if_splits)
    also have "\<dots> = map (\<lambda>kv. (fst kv, snd kv @ filter (\<lambda>x. status x = fst kv) (b # bs))) g"
      using nk by (intro map_cong) auto
    finally show ?thesis .
  next
    case (Some bucket)
    have d: "distinct (map fst (push g (status b) b))"
      using "2.prems"(1) by (simp add: push_keys)
    from Some 2 d
    have "g' = map (\<lambda>kv. (fst kv, snd kv @ filter (\<lambda>b. status b = fst kv) bs))
                 (push g (status b) b)"
      by simp
    also have "\<dots> = map (\<lambda>kv. (fst kv, snd kv @ filter (\<lambda>x. status x = fst kv) (b # bs))) g"
      using "2.prems"(1) by (simp add: push_bucket comp_def)
    finally show ?thesis .
  qed
qed

lemma forEachBooking_total:
  "list_all (\<lambda>b. status b \<in> set (map fst g)) bs \<Longrightarrow> \<exists>g'. forEachBooking g c bs = Inr (g', c + length bs)"
proof (induction g c bs rule: forEachBooking.induct)
  case (1 g c)
  then show ?case by simp
next
  case (2 g c b bs)
  then obtain bucket where s: "map_of g (status b) = Some bucket"
    using map_of_eq_None_iff [of g "status b"] by auto
  with 2 show ?case by (simp add: push_keys)
qed

lemma keys_emptyGroups: "map fst emptyGroups = statusOrder"
  by (simp add: emptyGroups_def comp_def)

lemma sizes_emptyGroups: "bucketSizes emptyGroups = 0"
  by (simp add: emptyGroups_def bucketSizes_def comp_def)

lemma distinct_statusOrder: "distinct statusOrder"
  by (simp add: statusOrder_def)

text \<open>
  Claim C1, as amended. For every list of bookings whose statuses all belong to the closed
  status set, the grouping returns, and its "Total Repairs" count equals the sum of the
  sizes of the eight per-status buckets. Whenever the grouping returns, the count is the
  length of the list, while the buckets hold exactly the bookings whose status is one of
  the eight: a booking with any other status is counted and placed in no bucket.
\<close>

theorem groupedBookings_total:
  "(groupedBookings bs = Inr g \<longrightarrow>
      count (total_repairs g) = length bs
      \<and> buckets g = map (\<lambda>s. (s, filter (\<lambda>b. status b = s) bs)) statusOrder
      \<and> bucketSizes (buckets g) = length (filter (\<lambda>b. status b \<in> set statusOrder) bs)
      \<and> map fst (buckets g) = statusOrder)
   \<and> (list_all (\<lambda>b. status b \<in> set statusOrder) bs \<longrightarrow>
      (\<exists>g'. groupedBookings bs = Inr g'
         \<and> count (total_repairs g') = bucketSizes (buckets g')))"
proof (intro conjI impI)
  assume a: "groupedBookings bs = Inr g"
  then obtain gs c where f: "forEachBooking emptyGroups 0 bs = Inr (gs, c)"
    and g: "g = \<lparr>buckets = gs, total_repairs = \<lparr>count = length bs, color = ''bg-gray-700''\<rparr>\<rparr>"
    by (auto simp: groupedBookings_def Let_def split: sum.splits)
  from forEachBooking_counts [OF f] g
  show "count (total_repairs g) = length bs" 
    and "bucketSizes (buckets g) = length (filter (\<lambda>b. status b \<in> set statusOrder) bs)"
    and "map fst (buckets g) = statusOrder"
    by (simp_all add: keys_emptyGroups sizes_emptyGroups)
  have "distinct (map fst emptyGroups)"
    by (simp add: keys_emptyGroups distinct_statusOrder)
  from forEachBooking_buckets [OF this f] g
  show "buckets g = map (\<lambda>s. (s, filter (\<lambda>b. status b = s) bs)) statusOrder"
    by (simp add: emptyGroups_def comp_def)
next
  assume a: "list_all (\<lambda>b. status b \<in> set statusOrder) bs"
  then have "list_all (\<lambda>b. status b \<in> set (map fst emptyGroups)) bs"
    by (simp add: keys_emptyGroups)
  from forEachBooking_total [OF this, of 0]
  obtain gs where f: "forEachBooking emptyGroups 0 bs = Inr (gs, length bs)" by auto
  have "length (filter (\<lambda>b. status b \<in> set statusOrder) bs) = length bs"
    using a by (induction bs) auto
  with forEachBooking_counts [OF f] have "bucketSizes gs = length bs"
    by (simp add: keys_emptyGroups sizes_emptyGroups)
  with f show "\<exists>g'. groupedBookings bs = Inr g'
         \<and> count (total_repairs g') = bucketSizes (buckets g')"
    by (simp add: groupedBookings_def)
qed

theorem groupedBookings_total_counterexample:
  "groupedBookings
     [\<lparr>booking_id = ''b1'', invoiceNo = ''INV-1'', customerName = ''Ann'',
       customerPhone = ''0820000000'', customerAddress = None, deviceModel = ''Phone'',
       deviceIssue = ''Screen'', imei = [], status = ''Cancelled'', bookingType = ''Walk-in'',
       createdAt = ''2025-01-01'', updatedAt = None, repairDetails = Missing\<rparr>]
     = Inr \<lparr>buckets = emptyGroups,
            total_repairs = \<lparr>count = 1, color = ''bg-gray-700''\<rparr>\<rparr>
   \<and> bucketSizes emptyGroups = 0"
  by (simp add: groupedBookings_def emptyGroups_def statusOrder_def objectPrototypeKeys_def
        bucketSizes_def)

theorem groupedBookings_total_witness:
  "list_all (\<lambda>b. status b \<in> set statusOrder)
     [\<lparr>booking_id = ''b1'', invoiceNo = ''INV-1'', customerName = ''Ann'',
       customerPhone = ''0820000000'', customerAddress = None, deviceModel = ''Phone'',
       deviceIssue = ''Screen'', imei = [], status = ''Testing'', bookingType = ''Walk-in'',
       createdAt = ''2025-01-01'', updatedAt = None, repairDetails = Missing\<rparr>,
      \<lparr>booking_id = ''b2'', invoiceNo = ''REQ-7'', customerName = ''Bob'',
       customerPhone = ''0830000000'', customerAddress = None, deviceModel = ''Tablet'',
       deviceIssue = ''Battery'', imei = [], status = ''Collected'', bookingType = ''Online'',
       createdAt = ''2025-01-02'', updatedAt = None, repairDetails = EmptyObject\<rparr>]
   \<and> (\<exists>g'. groupedBookings
     [\<lparr>booking_id = ''b1'', invoiceNo = ''INV-1'', customerName = ''Ann'',
       customerPhone = ''0820000000'', customerAddress = None, deviceModel = ''Phone'',
       deviceIssue = ''Screen'', imei = [], status = ''Testing'', bookingType = ''Walk-in'',
       createdAt = ''2025-01-01'', updatedAt = None, repairDetails = Missing\<rparr>,
      \<lparr>booking_id = ''b2'', invoiceNo = ''REQ-7'', customerName = ''Bob'',
       customerPhone = ''0830000000'', customerAddress = None, deviceModel = ''Tablet'',
       deviceIssue = ''Battery'', imei = [], status = ''Collected'', bookingType = ''Online'',
       createdAt = ''2025-01-02'', updatedAt = None, repairDetails = EmptyObject\<rparr>] = Inr g'
       \<and> count (total_repairs g') = bucketSizes (buckets g'))"
proof -
  let ?bs = "[\<lparr>booking_id = ''b1'', invoiceNo = ''INV-1'', customerName = ''Ann'',
       customerPhone = ''0820000000'', customerAddress = None, deviceModel = ''Phone'',
       deviceIssue = ''Screen'', imei = [], status = ''Testing'', bookingType = ''Walk-in'',
       createdAt = ''2025-01-01'', updatedAt = None, repairDetails = Missing\<rparr>,
      \<lparr>booking_id = ''b2'', invoiceNo = ''REQ-7'', customerName = ''Bob'',
       customerPhone = ''0830000000'', customerAddress = None, deviceModel = ''Tablet'',
       deviceIssue = ''Battery'', imei = [], status = ''Collected'', bookingType = ''Online'',
       createdAt = ''2025-01-02'', updatedAt = None, repairDetails = EmptyObject\<rparr>]"
  have h: "list_all (\<lambda>b. status b \<in> set statusOrder) ?bs"
    by (simp add: statusOrder_def)
  from groupedBookings_total [of ?bs undefined] h show ?thesis
    by blast
qed

section \<open>Properties of the quotation calculator\<close>

text \<open>
  Claim C6. For every repair cost estimate and every value of the BER flag, the premium is
  the estimate times 0.15 and the customer's cost is the flat fee 250, whatever the
  estimate and the flag; an estimate of 1200 gives a premium of 180 and a customer cost of
  250. A saved quotation carries exactly these two amounts.
\<close>

theorem quotation_amounts:
  "calculatedPremium q = repairCostEstimate q * 0.15
   \<and> totalCustomerCost q = 250
   \<and> calculatedPremium (q\<lparr>isBER := b\<rparr>) = calculatedPremium q
   \<and> totalCustomerCost (q\<lparr>isBER := b, repairCostEstimate := e\<rparr>) = totalCustomerCost q
   \<and> (repairCostEstimate q = 1200 \<longrightarrow>
        calculatedPremium q = 180 \<and> totalCustomerCost q = 250)
   \<and> (handleSaveQuote vis saving dbh q prof now ok qs = Saved qs' \<longrightarrow>
        (\<exists>d. qs' = qs @ [d]
           \<and> doc_calculatedPremium d = repairCostEstimate q * 0.15
           \<and> doc_totalCustomerCost d = 250
           \<and> repairCostEstimate d = repairCostEstimate q \<and> isBER d = isBER q))"
  by (auto simp: calculatedPremium_def totalCustomerCost_def PREMIUM_RATE_def
        DEDUCTIBLE_FLAT_def handleSaveQuote_def addDoc_def quote.defs
        split: if_splits option.splits)

theorem quotation_amounts_witness:
  "calculatedPremium
     \<lparr>deviceType = ''Smartphone'', quote_deviceModel = ''X1'', quote_customerName = ''Ann'',
      customerEmail = [], quote_imei = [], faultDescription = ''Screen'',
      repairCostEstimate = 1200, isBER = True\<rparr> = 180
   \<and> totalCustomerCost
     \<lparr>deviceType = ''Smartphone'', quote_deviceModel = ''X1'', quote_customerName = ''Ann'',
      customerEmail = [], quote_imei = [], faultDescription = ''Screen'',
      repairCostEstimate = 1200, isBER = True\<rparr> = 250
   \<and> (\<exists>d. handleSaveQuote True False True
     \<lparr>deviceType = ''Smartphone'', quote_deviceModel = ''X1'', quote_customerName = ''Ann'',
      customerEmail = [], quote_imei = [], faultDescription = ''Screen'',
      repairCostEstimate = 1200, isBER = True\<rparr>
     (initialProfile ''2025-01-01T00:00:00.000Z'') ''2025-01-02T00:00:00.000Z'' True [] = Saved [d]
       \<and> doc_calculatedPremium d = 180 \<and> doc_totalCustomerCost d = 250
       \<and> quote_status d = ''BER Report'')"
  using quotation_amounts
    [of "\<lparr>deviceType = ''Smartphone'', quote_deviceModel = ''X1'', quote_customerName = ''Ann'',
      customerEmail = [], quote_imei = [], faultDescription = ''Screen'',
      repairCostEstimate = 1200, isBER = True\<rparr>" True 0 True False True
      "initialProfile ''2025-01-01T00:00:00.000Z''" "''2025-01-02T00:00:00.000Z''" True "[]"]
  by (simp add: handleSaveQuote_def addDoc_def calculatedPremium_def totalCustomerCost_def
        PREMIUM_RATE_def DEDUCTIBLE_FLAT_def quote.defs)

section \<open>Properties of rendering\<close>

lemma mountForm_frame:
  "bookings (mountForm w) = bookings w \<and> invoices (mountForm w) = invoices w
   \<and> notifications (mountForm w) = notifications w \<and> toasts (mountForm w) = toasts w
   \<and> updateStatusData (mountForm w) = updateStatusData w
   \<and> currentBooking (mountForm w) = currentBooking w"
  by (simp add: mountForm_def split: option.splits)

lemma rerender_frame:
  "bookings (rerender w) = bookings w \<and> invoices (rerender w) = invoices w
   \<and> notifications (rerender w) = notifications w \<and> toasts (rerender w) = toasts w
   \<and> updateStatusData (rerender w) = updateStatusData w
   \<and> currentBooking (rerender w) = currentBooking w"
  by (simp add: rerender_def mountForm_frame split: sum.splits)

section \<open>Properties of booking creation\<close>

text \<open>
  Claim C7. A new booking gets its initial status from its origin: whenever the walk-in
  check-in adds a booking, the booking has status "Confirmed", and whenever the online
  request adds one, it has status "New Request". With the three required fields filled in
  and the store accepting the write, each handler adds exactly that booking.
\<close>

theorem initial_status_by_origin:
  "(bookings (handleCheckIn fd now i ok w) = bookings w
      \<or> (\<exists>b. bookings (handleCheckIn fd now i ok w) = bookings w @ [b]
            \<and> status b = ''Confirmed'' \<and> bookingType b = ''Walk-in''))
   \<and> (truthy (wi_customerName fd) \<and> truthy (wi_customerPhone fd) \<and> truthy (wi_deviceModel fd)
        \<and> db w \<and> ok \<longrightarrow>
        (\<exists>b. bookings (handleCheckIn fd now i ok w) = bookings w @ [b]
            \<and> booking_id b = i \<and> customerName b = wi_customerName fd
            \<and> status b = ''Confirmed'' \<and> bookingType b = ''Walk-in''))
   \<and> (bookings (handleBooking od rnd now i ok w) = bookings w
      \<or> (\<exists>b. bookings (handleBooking od rnd now i ok w) = bookings w @ [b]
            \<and> status b = ''New Request'' \<and> bookingType b = ''Online''))
   \<and> (truthy (ol_customerName od) \<and> truthy (ol_customerPhone od) \<and> truthy (ol_deviceModel od)
        \<and> db w \<and> ok \<longrightarrow>
        (\<exists>b. bookings (handleBooking od rnd now i ok w) = bookings w @ [b]
            \<and> booking_id b = i \<and> customerName b = ol_customerName od
            \<and> status b = ''New Request'' \<and> bookingType b = ''Online''))"
  by (simp add: handleCheckIn_def handleBooking_def addDoc_def showToast_def
        sendStatusNotification_def Let_def rerender_frame)

theorem initial_status_by_origin_witness:
  "bookings (handleCheckIn
      \<lparr>wi_invoiceNo = ''INV-2'', wi_customerName = ''Bob'', wi_customerPhone = ''0830000000'',
       wi_deviceModel = ''Tablet'', wi_deviceIssue = ''Battery'', wi_imei = []\<rparr>
      ''2025-01-03T09:00:00.000Z'' ''b2'' True exampleWorld)
     = [exampleBooking,
        \<lparr>booking_id = ''b2'', invoiceNo = ''INV-2'', customerName = ''Bob'',
         customerPhone = ''0830000000'', customerAddress = None, deviceModel = ''Tablet'',
         deviceIssue = ''Battery'', imei = [], status = ''Confirmed'',
         bookingType = ''Walk-in'', createdAt = ''2025-01-03T09:00:00.000Z'',
         updatedAt = None, repairDetails = EmptyObject\<rparr>]
   \<and> bookings (handleBooking
      \<lparr>ol_customerName = ''Cy'', ol_customerPhone = ''0840000000'',
       ol_deviceModel = ''Laptop'', ol_deviceIssue = ''Fan'', ol_imei = []\<rparr>
      ''4711'' ''2025-01-03T10:00:00.000Z'' ''b3'' True exampleWorld)
     = [exampleBooking,
        \<lparr>booking_id = ''b3'', invoiceNo = ''REQ-4711'', customerName = ''Cy'',
         customerPhone = ''0840000000'', customerAddress = None, deviceModel = ''Laptop'',
         deviceIssue = ''Fan'', imei = [], status = ''New Request'',
         bookingType = ''Online'', createdAt = ''2025-01-03T10:00:00.000Z'',
         updatedAt = None, repairDetails = EmptyObject\<rparr>]"
  using initial_status_by_origin
    [of "\<lparr>wi_invoiceNo = ''INV-2'', wi_customerName = ''Bob'', wi_customerPhone = ''0830000000'',
       wi_deviceModel = ''Tablet'', wi_deviceIssue = ''Battery'', wi_imei = []\<rparr>"
      "''2025-01-03T09:00:00.000Z''" "''b2''" True exampleWorld
      "\<lparr>ol_customerName = ''Cy'', ol_customerPhone = ''0840000000'',
       ol_deviceModel = ''Laptop'', ol_deviceIssue = ''Fan'', ol_imei = []\<rparr>"
      "''4711''"]
  by (simp add: handleCheckIn_def handleBooking_def addDoc_def showToast_def
        sendStatusNotification_def Let_def truthy_def exampleWorld_def rerender_frame)

section \<open>Properties of the profile bootstrap\<close>

text \<open>
  Claim C8. When the tenant has no profile document and the store answers the read and
  accepts the write, the bootstrap creates the default profile, whose subscription status
  is "active" and whose currency is "ZAR", and uses it. When a profile document exists,
  the bootstrap writes nothing, the document stays as it is, and it is the profile used.
\<close>

theorem profile_bootstrap:
  "(getOk \<and> setOk \<longrightarrow>
      (\<exists>p. profileDoc (initializeProfile None now getOk setOk) = Some p
           \<and> shopProfileState (initializeProfile None now getOk setOk) = Some p
           \<and> subscription_status p = ''active'' \<and> currency p = ''ZAR''))
   \<and> profileDoc (initializeProfile (Some existing) now getOk setOk) = Some existing
   \<and> writes (initializeProfile (Some existing) now getOk setOk) = 0
   \<and> (getOk \<longrightarrow>
        shopProfileState (initializeProfile (Some existing) now getOk setOk) = Some existing)"
  by (simp add: initializeProfile_def initialProfile_def)

theorem profile_bootstrap_witness:
  "profileDoc (initializeProfile None ''2025-01-01T00:00:00.000Z'' True True)
     = Some (initialProfile ''2025-01-01T00:00:00.000Z'')
   \<and> subscription_status (initialProfile ''2025-01-01T00:00:00.000Z'') = ''active''
   \<and> currency (initialProfile ''2025-01-01T00:00:00.000Z'') = ''ZAR''
   \<and> initializeProfile
        (Some ((initialProfile ''2024-06-01T00:00:00.000Z'')
                 \<lparr>companyName := ''Fixit'', currency := ''USD'', subscription_status := ''inactive''\<rparr>))
        ''2025-01-01T00:00:00.000Z'' True True
     = \<lparr>profileDoc = Some ((initialProfile ''2024-06-01T00:00:00.000Z'')
                 \<lparr>companyName := ''Fixit'', currency := ''USD'', subscription_status := ''inactive''\<rparr>),
        shopProfileState = Some ((initialProfile ''2024-06-01T00:00:00.000Z'')
                 \<lparr>companyName := ''Fixit'', currency := ''USD'', subscription_status := ''inactive''\<rparr>),
        authError = False, writes = 0\<rparr>"
  using profile_bootstrap
    [of True True "''2025-01-01T00:00:00.000Z''"
      "(initialProfile ''2024-06-01T00:00:00.000Z'')
                 \<lparr>companyName := ''Fixit'', currency := ''USD'', subscription_status := ''inactive''\<rparr>"]
  by (simp add: initializeProfile_def initialProfile_def)

section \<open>Properties of the repair-to-invoice generator\<close>

lemma orZero_id: "orZero x = x"
  by (simp add: orZero_def)

lemma enumerate_map_snd: "map (\<lambda>(k, p). f p) (enumerate n xs) = map f xs"
  by (induction xs arbitrary: n) simp_all

text \<open>
  Claim C4, as amended. The item list of the invoice generated from a job with repair
  details is one labor line (its description is the label "Labor: " followed by the
  confirmed final fault, or by the original device issue when no final fault is set; its
  unit price is the labor cost) followed, in order, by one line for each recorded part
  with cost > 0 and a non-empty name (its description is the label "Part: " followed by
  the name of the part; its unit price is the cost of the part); the parts with cost <= 0
  or an empty name produce no line.
\<close>

theorem invoice_lines:
  "map (\<lambda>it. (description it, qty it, unitPrice it)) (items (newInvoice b rd prof fresh now))
     = (''Labor: '' @ (if finalFault rd \<noteq> [] then finalFault rd else deviceIssue b), 1, laborCost rd)
       # map (\<lambda>p. (''Part: '' @ name p, 1, cost p))
           (filter (\<lambda>p. 0 < cost p \<and> name p \<noteq> []) (partsUsed rd))
   \<and> length (items (newInvoice b rd prof fresh now))
     = 1 + length (filter (\<lambda>p. 0 < cost p \<and> name p \<noteq> []) (partsUsed rd))"
proof -
  have "map (\<lambda>it. (description it, qty it, unitPrice it)) (partsCostItems fresh ps)
      = map (\<lambda>p. (''Part: '' @ name p, 1, cost p)) (filter (\<lambda>p. 0 < cost p \<and> name p \<noteq> []) ps)" for ps
    using enumerate_map_snd [of "\<lambda>p. (''Part: '' @ name p, 1::real, cost p)" 0]
    by (simp add: partsCostItems_def orZero_id truthy_def comp_def case_prod_unfold)
  then show ?thesis
    by (simp add: newInvoice_def Let_def laborItem_def orZero_id truthy_def partsCostItems_def)
qed

theorem invoice_lines_counterexample:
  "finalFault exampleRepairData = ''Cracked screen''
   \<and> description (hd (items (newInvoice exampleBooking exampleRepairData
        (initialProfile ''2025-01-01T00:00:00.000Z'') (\<lambda>k. 1000 + real k)
        ''2025-01-05T12:00:00.000Z''))) = ''Labor: Cracked screen''
   \<and> description (hd (items (newInvoice exampleBooking exampleRepairData
        (initialProfile ''2025-01-01T00:00:00.000Z'') (\<lambda>k. 1000 + real k)
        ''2025-01-05T12:00:00.000Z''))) \<noteq> finalFault exampleRepairData"
  by (simp add: newInvoice_def Let_def laborItem_def truthy_def exampleRepairData_def)

theorem invoice_lines_witness:
  "map (\<lambda>it. (description it, qty it, unitPrice it))
     (items (newInvoice exampleBooking exampleRepairData
        (initialProfile ''2025-01-01T00:00:00.000Z'') (\<lambda>k. 1000 + real k)
        ''2025-01-05T12:00:00.000Z''))
     = [(''Labor: Cracked screen'', 1, 350), (''Part: Screen'', 1, 800)]
   \<and> map (\<lambda>it. (description it, qty it, unitPrice it))
     (items (newInvoice exampleBooking (exampleRepairData\<lparr>finalFault := []\<rparr>)
        (initialProfile ''2025-01-01T00:00:00.000Z'') (\<lambda>k. 1000 + real k)
        ''2025-01-05T12:00:00.000Z''))
     = [(''Labor: No power'', 1, 350), (''Part: Screen'', 1, 800)]"
  using invoice_lines [of exampleBooking exampleRepairData
        "initialProfile ''2025-01-01T00:00:00.000Z''" "\<lambda>k. 1000 + real k"
        "''2025-01-05T12:00:00.000Z''"]
      invoice_lines [of exampleBooking "exampleRepairData\<lparr>finalFault := []\<rparr>"
        "initialProfile ''2025-01-01T00:00:00.000Z''" "\<lambda>k. 1000 + real k"
        "''2025-01-05T12:00:00.000Z''"]
  by (simp add: exampleBooking_def exampleRepairData_def)

section \<open>Properties of the status writes\<close>

lemma updateBookingStatusIn_frame:
  "notifications (updateBookingStatusIn seen i s now ok w) = notifications w
   \<and> invoices (updateBookingStatusIn seen i s now ok w) = invoices w
   \<and> toasts (updateBookingStatusIn seen i s now ok w) = toasts w
   \<and> updateStatusData (updateBookingStatusIn seen i s now ok w) = updateStatusData w
   \<and> repairForm (updateBookingStatusIn seen i s now ok w) = repairForm w
   \<and> db (updateBookingStatusIn seen i s now ok w) = db w
   \<and> userId (updateBookingStatusIn seen i s now ok w) = userId w
   \<and> shopProfile (updateBookingStatusIn seen i s now ok w) = shopProfile w
   \<and> crashed (updateBookingStatusIn seen i s now ok w) = crashed w"
  by (simp add: updateBookingStatusIn_def split: option.splits)

lemma updateBookingStatus_frame:
  "notifications (updateBookingStatus i s now ok w) = notifications w
   \<and> invoices (updateBookingStatus i s now ok w) = invoices w
   \<and> toasts (updateBookingStatus i s now ok w) = toasts w
   \<and> updateStatusData (updateBookingStatus i s now ok w) = updateStatusData w
   \<and> repairForm (updateBookingStatus i s now ok w) = repairForm w
   \<and> db (updateBookingStatus i s now ok w) = db w
   \<and> userId (updateBookingStatus i s now ok w) = userId w
   \<and> shopProfile (updateBookingStatus i s now ok w) = shopProfile w
   \<and> crashed (updateBookingStatus i s now ok w) = crashed w"
  by (simp add: updateBookingStatus_def updateBookingStatusIn_frame)

lemma updateBookingStatus_written:
  "db w \<Longrightarrow> \<not> noUser (userId w) \<Longrightarrow> ok \<Longrightarrow> i \<in> booking_id ` set (bookings w) \<Longrightarrow>
   bookings (updateBookingStatus i s now ok w)
     = map (\<lambda>b. if booking_id b = i then b\<lparr>status := s, updatedAt := Some now\<rparr> else b) (bookings w)"
  by (simp add: updateBookingStatus_def updateBookingStatusIn_def updateDoc_def)

lemma updateBookingStatus_rejected:
  "\<not> ok \<Longrightarrow> updateBookingStatus i s now ok w = w"
  by (simp add: updateBookingStatus_def updateBookingStatusIn_def updateDoc_def)

text \<open>
  Claim C5. The repair-to-invoice generator applies the tax rate 15 with the VAT-exempt
  flag off, whatever the shop profile holds. On success, that is when the store accepts
  both writes, it persists the invoice, sets the status of the job to "Collected" and
  dispatches a notification to the customer.
\<close>

theorem generate_invoice_success:
  assumes "currentBooking w = Some (Opened b)" and "repairForm w = Some rd"
    and "db w" and "\<not> noUser (userId w)" and "shopProfile w = Some prof"
    and "okInvoice" and "okStatus" and "booking_id b \<in> booking_id ` set (bookings w)"
  shows "invoices (handleGenerateInvoice fresh now okInvoice okStatus w)
           = invoices w @ [newInvoice b rd prof fresh now]
     \<and> taxRate (newInvoice b rd prof fresh now) = 15
     \<and> isVatExempt (newInvoice b rd prof fresh now) = False
     \<and> taxAmount (newInvoice b rd prof fresh now)
         = subtotal (newInvoice b rd prof fresh now) * (15 / 100)
     \<and> totalAmount (newInvoice b rd prof fresh now)
         = subtotal (newInvoice b rd prof fresh now) + taxAmount (newInvoice b rd prof fresh now)
     \<and> bookings (handleGenerateInvoice fresh now okInvoice okStatus w)
         = map (\<lambda>x. if booking_id x = booking_id b
                     then x\<lparr>status := ''Collected'', updatedAt := Some now\<rparr> else x)
             (bookings w)
     \<and> notifications (handleGenerateInvoice fresh now okInvoice okStatus w)
         = notifications w
           @ [\<lparr>to_phone = customerPhone b, to_name = customerName b,
               about_invoiceNo = invoiceNo b, about_status = ''Collected (Invoice Sent)''\<rparr>]"
proof -
  let ?w1 = "w\<lparr>invoices := invoices w @ [newInvoice b rd prof fresh now]\<rparr>"
  have h: "handleGenerateInvoice fresh now okInvoice okStatus w
      = rerender (onClose
          (showToast (InvoiceGenerated (inv_invoiceNo (newInvoice b rd prof fresh now)))
            (sendStatusNotification (customerPhone b) (customerName b) (invoiceNo b)
               ''Collected (Invoice Sent)''
               (updateBookingStatus (booking_id b) ''Collected'' now okStatus ?w1))))"
    using assms by (simp add: handleGenerateInvoice_def addDoc_def Let_def)
  have w1: "db ?w1" "\<not> noUser (userId ?w1)" "booking_id b \<in> booking_id ` set (bookings ?w1)"
    using assms by simp_all
  have b: "bookings (updateBookingStatus (booking_id b) ''Collected'' now okStatus ?w1)
      = map (\<lambda>x. if booking_id x = booking_id b
                     then x\<lparr>status := ''Collected'', updatedAt := Some now\<rparr> else x)
             (bookings w)"
    using updateBookingStatus_written [OF w1(1) w1(2) \<open>okStatus\<close> w1(3)] by simp
  have f: "notifications (updateBookingStatus (booking_id b) ''Collected'' now okStatus ?w1)
        = notifications w"
     "invoices (updateBookingStatus (booking_id b) ''Collected'' now okStatus ?w1)
        = invoices w @ [newInvoice b rd prof fresh now]"
    using updateBookingStatus_frame [of "booking_id b" "''Collected''" now okStatus ?w1]
    by simp_all
  show ?thesis
    unfolding h
    by (simp add: rerender_frame onClose_def showToast_def sendStatusNotification_def b f)
      (simp add: newInvoice_def Let_def)
qed

theorem generate_invoice_success_witness:
  "invoices (handleGenerateInvoice (\<lambda>k. 1000 + real k) ''2025-01-05T12:00:00.000Z'' True True
      exampleWorld)
     = [newInvoice exampleBooking exampleRepairData
          (initialProfile ''2025-01-01T00:00:00.000Z'') (\<lambda>k. 1000 + real k)
          ''2025-01-05T12:00:00.000Z'']
   \<and> subtotal (newInvoice exampleBooking exampleRepairData
          (initialProfile ''2025-01-01T00:00:00.000Z'') (\<lambda>k. 1000 + real k)
          ''2025-01-05T12:00:00.000Z'') = 1150
   \<and> taxAmount (newInvoice exampleBooking exampleRepairData
          (initialProfile ''2025-01-01T00:00:00.000Z'') (\<lambda>k. 1000 + real k)
          ''2025-01-05T12:00:00.000Z'') = 172.5
   \<and> map status (bookings (handleGenerateInvoice (\<lambda>k. 1000 + real k)
          ''2025-01-05T12:00:00.000Z'' True True exampleWorld)) = [''Collected'']
   \<and> notifications (handleGenerateInvoice (\<lambda>k. 1000 + real k)
          ''2025-01-05T12:00:00.000Z'' True True exampleWorld)
     = [\<lparr>to_phone = ''0820000000'', to_name = ''Ann'', about_invoiceNo = ''INV-1'',
         about_status = ''Collected (Invoice Sent)''\<rparr>]"
proof -
  have h: "currentBooking exampleWorld = Some (Opened exampleBooking)"
    "repairForm exampleWorld = Some exampleRepairData"
    "db exampleWorld" "\<not> noUser (userId exampleWorld)"
    "shopProfile exampleWorld = Some (initialProfile ''2025-01-01T00:00:00.000Z'')"
    "True" "True"
    "booking_id exampleBooking \<in> booking_id ` set (bookings exampleWorld)"
    by (simp_all add: exampleWorld_def noUser_def truthy_def)
  have s: "subtotal (newInvoice exampleBooking exampleRepairData
          (initialProfile ''2025-01-01T00:00:00.000Z'') (\<lambda>k. 1000 + real k)
          ''2025-01-05T12:00:00.000Z'') = 1150"
    by (simp add: newInvoice_def Let_def laborItem_def partsCostItems_def orZero_def
          truthy_def exampleRepairData_def enumerate_eq_zip)
  from generate_invoice_success [OF h, of "\<lambda>k. 1000 + real k" "''2025-01-05T12:00:00.000Z''"] s
  show ?thesis
    by (simp add: exampleWorld_def exampleBooking_def)
qed

section \<open>Properties of the manual status tool\<close>

lemma toolOptions_eq:
  "toolOptions = [''Confirmed'', ''In Progress'', ''Awaiting Parts'', ''Testing'',
     ''Ready for Collection'', ''Collected'', ''Unable To Repair'']"
  by (simp add: toolOptions_def statusOrder_def)

lemma toolOptions_set: "set toolOptions = set statusOrder - {''New Request''}"
  by (auto simp: toolOptions_def)

text \<open>
  Claim C9. Whenever the "Update Repair Status" tool is used with an invoice number
  entered and a booking with that number exists, the notification to the customer is
  dispatched after the attempt to write the status, whatever the outcome of the write:
  the write catches its own errors and reports nothing to its caller, so a rejected write
  leaves the bookings as they were and the notification is sent all the same.
\<close>

theorem manual_tool_notifies:
  assumes "truthy (usd_invoiceNo (updateStatusData w))"
    and "\<exists>b\<in>set (bookings w). invoiceNo b = usd_invoiceNo (updateStatusData w)"
  shows "\<exists>b\<in>set (bookings w).
           invoiceNo b = usd_invoiceNo (updateStatusData w)
           \<and> notifications (handleUpdateStatusTool now ok w)
               = notifications w
                 @ [\<lparr>to_phone = customerPhone b, to_name = customerName b,
                     about_invoiceNo = invoiceNo b,
                     about_status = usd_status (updateStatusData w)\<rparr>]
           \<and> (\<not> ok \<longrightarrow>
                updateBookingStatus (booking_id b) (usd_status (updateStatusData w)) now ok w = w
                \<and> bookings (handleUpdateStatusTool now ok w) = bookings w)"
proof -
  from assms(2)
  obtain b where f: "find (\<lambda>b. invoiceNo b = usd_invoiceNo (updateStatusData w)) (bookings w) = Some b"
    by (cases "find (\<lambda>b. invoiceNo b = usd_invoiceNo (updateStatusData w)) (bookings w)")
       (auto simp: find_None_iff)
  then have m: "b \<in> set (bookings w)" "invoiceNo b = usd_invoiceNo (updateStatusData w)"
    by (auto simp: find_Some_iff)
  have n: "notifications (handleUpdateStatusTool now ok w)
      = notifications w
        @ [\<lparr>to_phone = customerPhone b, to_name = customerName b,
            about_invoiceNo = invoiceNo b, about_status = usd_status (updateStatusData w)\<rparr>]"
    using assms(1) f
    by (simp add: handleUpdateStatusTool_def Let_def sendStatusNotification_def
          updateBookingStatus_frame rerender_frame)
  have r: "\<not> ok \<longrightarrow>
      updateBookingStatus (booking_id b) (usd_status (updateStatusData w)) now ok w = w
      \<and> bookings (handleUpdateStatusTool now ok w) = bookings w"
    using assms(1) f
    by (simp add: handleUpdateStatusTool_def Let_def sendStatusNotification_def
          updateBookingStatus_rejected rerender_frame)
  from m n r show ?thesis by blast
qed

lemma notReset_refl: "list_all2 notReset bs bs"
  by (simp add: list_all2_refl notReset_def)

lemma notReset_trans:
  assumes "list_all2 notReset as bs" and "list_all2 notReset bs cs"
  shows "list_all2 notReset as cs"
proof (rule list_all2_trans [OF _ assms])
  fix a b c
  assume "notReset a b" and "notReset b c"
  then show "notReset a c" by (auto simp: notReset_def)
qed

lemma updateBookingStatus_notReset:
  "s \<noteq> ''New Request'' \<Longrightarrow>
   list_all2 notReset (bookings w) (bookings (updateBookingStatus i s now ok w))"
  by (simp add: updateBookingStatus_def updateBookingStatusIn_def updateDoc_def list_all2_map2
        list_all2_refl notReset_def split: option.splits)

lemma tool_step:
  assumes "usd_status (updateStatusData w) \<in> set toolOptions" and "toolEvent ev"
  shows "usd_status (updateStatusData (step w ev)) \<in> set toolOptions
     \<and> list_all2 notReset (bookings w) (bookings (step w ev))"
proof (cases "crashed w")
  case True
  with assms show ?thesis by (simp add: step_def notReset_refl)
next
  case False
  have nn: "usd_status (updateStatusData w) \<noteq> ''New Request''"
    using assms(1) by (auto simp: toolOptions_def)
  have c: "''Confirmed'' \<in> set toolOptions" by (simp add: toolOptions_eq)
  from assms(2) show ?thesis
  proof (cases ev)
    case (TypeInvoiceNo s)
    with False assms(1) show ?thesis by (simp add: step_def rerender_frame notReset_refl)
  next
    case (SelectStatus k)
    with False assms(1) show ?thesis by (simp add: step_def rerender_frame notReset_refl)
  next
    case (ClickUpdateStatus now ok)
    have "usd_status (updateStatusData (handleUpdateStatusTool now ok w)) \<in> set toolOptions"
      using assms(1) c
      by (simp add: handleUpdateStatusTool_def Let_def showToast_def initialUpdateStatusData_def
            rerender_frame split: option.splits)
    moreover have "list_all2 notReset (bookings w) (bookings (handleUpdateStatusTool now ok w))"
      using nn
      by (simp add: handleUpdateStatusTool_def Let_def showToast_def notReset_refl
            sendStatusNotification_def updateBookingStatus_notReset rerender_frame
            split: option.splits)
    ultimately show ?thesis using False ClickUpdateStatus
      by (simp add: step_def)
  qed simp_all
qed

lemma tool_run:
  "usd_status (updateStatusData w) \<in> set toolOptions \<Longrightarrow> list_all toolEvent evs \<Longrightarrow>
   list_all2 notReset (bookings w) (bookings (run w evs))"
proof (induction evs arbitrary: w)
  case Nil
  then show ?case by (simp add: run_def notReset_refl)
next
  case (Cons ev evs)
  from Cons.prems have s: "usd_status (updateStatusData (step w ev)) \<in> set toolOptions"
    "list_all2 notReset (bookings w) (bookings (step w ev))"
    using tool_step [of w ev] by simp_all
  from Cons.IH [OF s(1)] Cons.prems
  have "list_all2 notReset (bookings (step w ev)) (bookings (run (step w ev) evs))" by simp
  with s(2) show ?case by (simp add: run_def notReset_trans)
qed

text \<open>
  Claim C10. The statuses the "Update Repair Status" tool offers are exactly the closed
  status set without "New Request", and the tool starts, and restarts after every use, at
  "Confirmed". So no sequence of uses of the tool brings a job to "New Request": a job
  found in "New Request" afterwards was in "New Request" before.
\<close>

theorem manual_tool_never_new_request:
  "toolOptions = [''Confirmed'', ''In Progress'', ''Awaiting Parts'', ''Testing'',
     ''Ready for Collection'', ''Collected'', ''Unable To Repair'']
   \<and> set toolOptions = set statusOrder - {''New Request''}
   \<and> usd_status initialUpdateStatusData \<in> set toolOptions
   \<and> (usd_status (updateStatusData w) \<in> set toolOptions \<and> list_all toolEvent evs \<longrightarrow>
        list_all2 notReset (bookings w) (bookings (run w evs)))"
proof (intro conjI impI)
  show "usd_status initialUpdateStatusData \<in> set toolOptions"
    by (simp add: toolOptions_eq initialUpdateStatusData_def)
next
  assume "usd_status (updateStatusData w) \<in> set toolOptions \<and> list_all toolEvent evs"
  then show "list_all2 notReset (bookings w) (bookings (run w evs))"
    by (simp add: tool_run)
next
  show "set toolOptions = set statusOrder - {''New Request''}"
    by (rule toolOptions_set)
qed (rule toolOptions_eq)

theorem manual_tool_notifies_witness:
  "truthy (usd_invoiceNo (updateStatusData exampleWorld))
   \<and> notifications (handleUpdateStatusTool ''2025-01-06T10:00:00.000Z'' False exampleWorld)
       = [\<lparr>to_phone = ''0820000000'', to_name = ''Ann'', about_invoiceNo = ''INV-1'',
           about_status = ''Testing''\<rparr>]
   \<and> bookings (handleUpdateStatusTool ''2025-01-06T10:00:00.000Z'' False exampleWorld)
       = [exampleBooking]"
proof -
  have h: "truthy (usd_invoiceNo (updateStatusData exampleWorld))"
    "\<exists>b\<in>set (bookings exampleWorld). invoiceNo b = usd_invoiceNo (updateStatusData exampleWorld)"
    by (simp_all add: exampleWorld_def exampleBooking_def truthy_def)
  from manual_tool_notifies [OF h, of "''2025-01-06T10:00:00.000Z''" False] h(1)
  show ?thesis
    by (simp add: exampleWorld_def exampleBooking_def)
qed

theorem manual_tool_never_new_request_witness:
  "usd_status (updateStatusData exampleWorld) \<in> set toolOptions
   \<and> list_all toolEvent
        [TypeInvoiceNo ''INV-1'', SelectStatus 0, ClickUpdateStatus ''2025-01-06T10:00:00.000Z'' True]
   \<and> list_all2 notReset (bookings exampleWorld)
        (bookings (run exampleWorld
           [TypeInvoiceNo ''INV-1'', SelectStatus 0,
            ClickUpdateStatus ''2025-01-06T10:00:00.000Z'' True]))
   \<and> map status (bookings (run exampleWorld
           [TypeInvoiceNo ''INV-1'', SelectStatus 0,
            ClickUpdateStatus ''2025-01-06T10:00:00.000Z'' True])) = [''Confirmed'']"
proof -
  have h: "usd_status (updateStatusData exampleWorld) \<in> set toolOptions"
    "list_all toolEvent
        [TypeInvoiceNo ''INV-1'', SelectStatus 0, ClickUpdateStatus ''2025-01-06T10:00:00.000Z'' True]"
    by (simp_all add: exampleWorld_def toolOptions_eq)
  have r: "map status (bookings (run exampleWorld
           [TypeInvoiceNo ''INV-1'', SelectStatus 0,
            ClickUpdateStatus ''2025-01-06T10:00:00.000Z'' True])) = [''Confirmed'']"
    by (simp add: run_def step_def rerender_def mountForm_def defaultRepairData_def
          groupedBookings_def emptyGroups_def statusOrder_def exampleWorld_def
          exampleBooking_def toolOptions_def handleUpdateStatusTool_def
          updateBookingStatus_def updateBookingStatusIn_def updateDoc_def noUser_def
          truthy_def sendStatusNotification_def initialUpdateStatusData_def Let_def)
  from manual_tool_never_new_request
         [of exampleWorld "[TypeInvoiceNo ''INV-1'', SelectStatus 0,
            ClickUpdateStatus ''2025-01-06T10:00:00.000Z'' True]"] h r
  show ?thesis by blast
qed

section \<open>The status invariant\<close>

lemma toolOptions_closed: "s \<in> set toolOptions \<Longrightarrow> s \<in> set statusOrder"
  by (simp add: toolOptions_def)

lemma closedBooking_status:
  "closedBooking b \<Longrightarrow> s \<in> set statusOrder \<Longrightarrow> closedBooking (b\<lparr>status := s, updatedAt := u\<rparr>)"
  by (simp add: closedBooking_def)

lemma closedCurrent_spread:
  "(case c of None \<Rightarrow> True | Some cb \<Rightarrow> closedCurrent cb) \<Longrightarrow> s \<in> set statusOrder \<Longrightarrow>
   closedCurrent (spreadStatus s c)"
  by (cases "(s, c)" rule: spreadStatus.cases) (simp_all add: closedBooking_def)

lemma closed_initialRepairData:
  "closedCurrent cb \<Longrightarrow> initialRepairData cb = Some rd \<Longrightarrow> finalStatus rd \<in> set statusOrder"
  by (cases cb)
     (auto simp: closedBooking_def defaultRepairData_def split: repairDetails.splits)

lemma closed_updateDoc:
  "list_all closedBooking bs \<Longrightarrow> (\<And>b. closedBooking b \<Longrightarrow> closedBooking (upd b)) \<Longrightarrow>
   updateDoc d bs i upd ok = Some bs' \<Longrightarrow> list_all closedBooking bs'"
  by (auto simp: updateDoc_def list_all_iff split: if_splits)

lemma closedWorld_mountForm: "closedWorld w \<Longrightarrow> closedWorld (mountForm w)"
  by (auto simp: mountForm_def closedWorld_def closed_initialRepairData split: option.splits)

lemma closedWorld_crashed: "closedWorld (w\<lparr>crashed := c\<rparr>) = closedWorld w"
  by (simp add: closedWorld_def)

lemma closedWorld_rerender: "closedWorld w \<Longrightarrow> closedWorld (rerender w)"
  by (simp add: rerender_def closedWorld_mountForm closedWorld_crashed split: sum.splits)

lemma closedWorld_updateBookingStatusIn:
  assumes "closedWorld w" and "s \<in> set statusOrder"
  shows "closedWorld (updateBookingStatusIn seen i s now ok w)"
proof (cases "db w \<and> \<not> noUser (userId w)")
  case False
  with assms show ?thesis by (auto simp: updateBookingStatusIn_def)
next
  case g: True
  show ?thesis
  proof (cases "updateDoc True (bookings w) i (\<lambda>b. b\<lparr>status := s, updatedAt := Some now\<rparr>) ok")
    case None
    with assms g show ?thesis by (simp add: updateBookingStatusIn_def)
  next
    case (Some bs)
    have "list_all closedBooking bs"
      using assms closed_updateDoc [OF _ _ Some] by (simp add: closedWorld_def closedBooking_status)
    moreover have "closedCurrent (spreadStatus s (currentBooking w))"
      using assms by (simp add: closedWorld_def closedCurrent_spread)
    ultimately show ?thesis using assms g Some
      by (simp add: updateBookingStatusIn_def closedWorld_def)
  qed
qed

lemma closedWorld_updateBookingStatus:
  "closedWorld w \<Longrightarrow> s \<in> set statusOrder \<Longrightarrow> closedWorld (updateBookingStatus i s now ok w)"
  by (simp add: updateBookingStatus_def closedWorld_updateBookingStatusIn)

lemma closedWorld_showToast: "closedWorld (showToast t w) = closedWorld w"
  by (simp add: showToast_def closedWorld_def)

lemma closedWorld_notify: "closedWorld (sendStatusNotification p n i s w) = closedWorld w"
  by (simp add: sendStatusNotification_def closedWorld_def)

lemma closedWorld_onClose: "closedWorld w \<Longrightarrow> closedWorld (onClose w)"
  by (simp add: onClose_def closedWorld_def)

lemma closedWorld_editForm:
  "closedWorld w \<Longrightarrow> (\<And>rd. finalStatus rd \<in> set statusOrder \<Longrightarrow> finalStatus (f rd) \<in> set statusOrder) \<Longrightarrow>
   closedWorld (editForm f w)"
  by (auto simp: editForm_def closedWorld_def split: option.splits)

lemma closedWorld_added:
  "closedWorld w \<Longrightarrow> closedBooking b \<Longrightarrow> closedWorld (w\<lparr>bookings := bookings w @ [b]\<rparr>)"
  by (simp add: closedWorld_def)

lemma closedWorld_handleCheckIn:
  assumes "closedWorld w"
  shows "closedWorld (handleCheckIn fd now i ok w)"
proof -
  have "closedBooking
      \<lparr>booking_id = i, invoiceNo = wi_invoiceNo fd, customerName = wi_customerName fd,
       customerPhone = wi_customerPhone fd, customerAddress = None,
       deviceModel = wi_deviceModel fd, deviceIssue = wi_deviceIssue fd, imei = wi_imei fd,
       status = ''Confirmed'', bookingType = ''Walk-in'', createdAt = now, updatedAt = None,
       repairDetails = EmptyObject\<rparr>"
    by (simp add: closedBooking_def statusOrder_def)
  with assms show ?thesis
    by (simp add: handleCheckIn_def Let_def addDoc_def closedWorld_showToast closedWorld_notify
          closedWorld_rerender closedWorld_added)
qed

lemma closedWorld_handleBooking:
  assumes "closedWorld w"
  shows "closedWorld (handleBooking fd rnd now i ok w)"
proof -
  have "closedBooking
      \<lparr>booking_id = i, invoiceNo = ''REQ-'' @ rnd, customerName = ol_customerName fd,
       customerPhone = ol_customerPhone fd, customerAddress = None,
       deviceModel = ol_deviceModel fd, deviceIssue = ol_deviceIssue fd, imei = ol_imei fd,
       status = ''New Request'', bookingType = ''Online'', createdAt = now, updatedAt = None,
       repairDetails = EmptyObject\<rparr>"
    by (simp add: closedBooking_def statusOrder_def)
  with assms show ?thesis
    by (simp add: handleBooking_def Let_def addDoc_def closedWorld_showToast closedWorld_notify
          closedWorld_rerender closedWorld_added)
qed

lemma closedWorld_reset:
  "closedWorld w \<Longrightarrow> closedWorld (w\<lparr>updateStatusData := initialUpdateStatusData\<rparr>)"
  by (simp add: closedWorld_def initialUpdateStatusData_def toolOptions_def statusOrder_def)

lemma closedWorld_handleUpdateStatusTool:
  assumes "closedWorld w"
  shows "closedWorld (handleUpdateStatusTool now ok w)"
proof -
  from assms have "usd_status (updateStatusData w) \<in> set statusOrder"
    by (simp add: closedWorld_def toolOptions_closed)
  with assms show ?thesis
    by (simp add: handleUpdateStatusTool_def Let_def closedWorld_showToast closedWorld_notify
          closedWorld_reset closedWorld_updateBookingStatus closedWorld_rerender
          split: option.splits)
qed

lemma closedWorld_openRepairForm:
  assumes "closedWorld w" and "closedBooking b"
  shows "closedWorld (openRepairForm b w)"
proof -
  from assms have "closedWorld (w\<lparr>currentBooking := Some (Opened b)\<rparr>)"
    by (simp add: closedWorld_def)
  then show ?thesis
    by (simp add: openRepairForm_def closedWorld_rerender)
qed

lemma closedWorld_handleNotifyCustomer:
  "closedWorld w \<Longrightarrow> closedWorld (handleNotifyCustomer w)"
  by (simp add: handleNotifyCustomer_def closedWorld_notify split: option.splits current.splits)

lemma closedWorld_bookings:
  "closedWorld w \<Longrightarrow> closedWorld (w\<lparr>bookings := bs\<rparr>) = list_all closedBooking bs"
  by (simp add: closedWorld_def)

lemma closedWorld_handleUpdateRepair:
  assumes "closedWorld w"
  shows "closedWorld (handleUpdateRepair now ok1 ok2 w)"
proof (cases "currentBooking w")
  case None
  with assms show ?thesis by (simp add: handleUpdateRepair_def)
next
  case c: (Some cb)
  show ?thesis
  proof (cases "repairForm w")
    case None
    with assms c show ?thesis by (simp add: handleUpdateRepair_def split: current.splits)
  next
    case rd: (Some rd)
    from assms rd have fs: "finalStatus rd \<in> set statusOrder" by (simp add: closedWorld_def)
    show ?thesis
    proof (cases cb)
      case (StatusOnly s)
      with assms c rd show ?thesis by (simp add: handleUpdateRepair_def closedWorld_showToast)
    next
      case (Opened b)
      show ?thesis
      proof (cases "updateDoc (db w) (bookings w) (booking_id b)
                    (\<lambda>x. x\<lparr>repairDetails := Details rd, status := finalStatus rd,
                            updatedAt := Some now\<rparr>) ok1")
        case None
        with assms c rd Opened show ?thesis
          by (simp add: handleUpdateRepair_def Let_def closedWorld_showToast)
      next
        case (Some bs)
        have "list_all closedBooking bs"
          using assms fs closed_updateDoc [OF _ _ Some]
          by (simp add: closedWorld_def closedBooking_def)
        with assms have "closedWorld (w\<lparr>bookings := bs\<rparr>)" by (simp add: closedWorld_bookings)
        then have "closedWorld (rerender
                     (updateBookingStatusIn (Some (Opened b)) (booking_id b) (finalStatus rd)
                        now ok2 (onClose (w\<lparr>bookings := bs\<rparr>))))"
          using fs
          by (simp add: closedWorld_onClose closedWorld_updateBookingStatusIn
                closedWorld_rerender)
        with c rd Opened Some show ?thesis by (simp add: handleUpdateRepair_def Let_def)
      qed
    qed
  qed
qed

lemma closedWorld_invoices:
  "closedWorld (w\<lparr>invoices := invs\<rparr>) = closedWorld w"
  by (simp add: closedWorld_def)

lemma closedWorld_handleGenerateInvoice:
  assumes "closedWorld w"
  shows "closedWorld (handleGenerateInvoice fresh now ok1 ok2 w)"
proof -
  have c: "''Collected'' \<in> set statusOrder" by (simp add: statusOrder_def)
  from assms show ?thesis
    by (simp add: handleGenerateInvoice_def Let_def addDoc_def closedWorld_showToast
          closedWorld_notify closedWorld_onClose closedWorld_updateBookingStatus [OF _ c]
          closedWorld_invoices closedWorld_rerender split: option.splits current.splits)
qed

lemma closedWorld_tool_data:
  "closedWorld w \<Longrightarrow> usd_status d \<in> set toolOptions \<Longrightarrow> closedWorld (w\<lparr>updateStatusData := d\<rparr>)"
  by (simp add: closedWorld_def)

lemma closedWorld_handle:
  assumes "closedWorld w"
  shows "closedWorld (handle ev w)"
proof (cases ev)
  case (ClickCard k same)
  show ?thesis
  proof (cases "k < length (bookings w) \<and> status (bookings w ! k) \<in> set boardColumns")
    case True
    then have "closedBooking (bookings w ! k)"
      using assms by (simp add: closedWorld_def list_all_length)
    with assms True ClickCard show ?thesis by (simp add: closedWorld_openRepairForm)
  next
    case False
    with assms ClickCard show ?thesis by auto
  qed
next
  case (TypeInvoiceNo s)
  from assms have "usd_status ((updateStatusData w)\<lparr>usd_invoiceNo := s\<rparr>) \<in> set toolOptions"
    by (simp add: closedWorld_def)
  with assms TypeInvoiceNo show ?thesis
    by (simp add: closedWorld_rerender closedWorld_tool_data)
next
  case (SelectStatus k)
  with assms show ?thesis
    by (simp add: closedWorld_rerender closedWorld_tool_data)
next
  case (SelectFinalStatus k)
  with assms show ?thesis by (simp add: closedWorld_editForm)
next
  case (ClickGenerateInvoice z fresh now ok1 ok2)
  with assms show ?thesis
    by (simp add: closedWorld_handleGenerateInvoice split: option.splits)
qed (use assms in \<open>simp_all add: closedWorld_handleCheckIn closedWorld_handleBooking
       closedWorld_handleUpdateStatusTool closedWorld_editForm handlePartChange_def
       handleAddPart_def handleRemovePart_def closedWorld_handleNotifyCustomer
       closedWorld_handleUpdateRepair closedWorld_rerender\<close>)

lemma closedWorld_step: "closedWorld w \<Longrightarrow> closedWorld (step w ev)"
  by (simp add: step_def closedWorld_handle)

lemma closedWorld_run: "closedWorld w \<Longrightarrow> closedWorld (run w evs)"
  unfolding run_def by (induction evs arbitrary: w) (simp_all add: closedWorld_step)

lemma closedWorld_initial: "closedWorld (initialWorld dbh uid prof)"
  by (simp add: closedWorld_def initialWorld_def initialUpdateStatusData_def toolOptions_def
        statusOrder_def)

lemma closedWorld_statuses:
  "closedWorld w \<Longrightarrow> list_all (\<lambda>b. status b \<in> set statusOrder) (bookings w)"
  by (simp add: closedWorld_def closedBooking_def list_all_iff)

text \<open>
  Claim C2. A booking has exactly one status, its \<open>status\<close> field, and every booking
  reachable through the operations of the system (walk-in check-in, online booking, the
  manual status tool, the repair form, the invoice generator) has a status of the closed
  status set. Every operation preserves the invariant \<open>closedWorld\<close>, which says so of
  the stored bookings and of the statuses held in the current booking, in the two pickers
  and in stored repair details, from which the next status is taken.
\<close>

theorem status_invariant:
  "list_all (\<lambda>b. status b \<in> set statusOrder) (bookings (run (initialWorld dbh uid prof) evs))
   \<and> closedWorld (initialWorld dbh uid prof)
   \<and> (closedWorld w \<longrightarrow>
        closedWorld (step w ev)
        \<and> list_all (\<lambda>b. status b \<in> set statusOrder) (bookings w)
        \<and> list_all (\<lambda>b. status b \<in> set statusOrder) (bookings (step w ev))
        \<and> list_all (\<lambda>b. status b \<in> set statusOrder) (bookings (run w evs)))"
  by (simp add: closedWorld_initial closedWorld_step closedWorld_run closedWorld_statuses)

theorem status_invariant_witness:
  "closedWorld exampleWorld
   \<and> closedWorld (step exampleWorld (ClickUpdateRepair ''2025-01-06T10:00:00.000Z'' True True))
   \<and> map status (bookings
         (step exampleWorld (ClickUpdateRepair ''2025-01-06T10:00:00.000Z'' True True)))
       = [''Testing'']
   \<and> currentBooking
         (step exampleWorld (ClickUpdateRepair ''2025-01-06T10:00:00.000Z'' True True))
       = Some (StatusOnly ''Testing'')
   \<and> map status (bookings
         (run exampleWorld
            [TypeInvoiceNo ''INV-9'',
             ClickUpdateRepair ''2025-01-06T10:00:00.000Z'' True True]))
       = [''In Progress'']
   \<and> list_all (\<lambda>b. status b \<in> set statusOrder)
        (bookings (run (initialWorld True (Some ''tenant-1'')
                         (Some (initialProfile ''2025-01-01T00:00:00.000Z'')))
           [ClickCheckIn
              \<lparr>wi_invoiceNo = ''INV-2'', wi_customerName = ''Bob'',
               wi_customerPhone = ''0830000000'', wi_deviceModel = ''Tablet'',
               wi_deviceIssue = ''Battery'', wi_imei = []\<rparr>
              ''2025-01-03T09:00:00.000Z'' ''b2'' True,
            TypeInvoiceNo ''INV-2'', SelectStatus 3,
            ClickUpdateStatus ''2025-01-04T09:00:00.000Z'' True]))
   \<and> map status
        (bookings (run (initialWorld True (Some ''tenant-1'')
                         (Some (initialProfile ''2025-01-01T00:00:00.000Z'')))
           [ClickCheckIn
              \<lparr>wi_invoiceNo = ''INV-2'', wi_customerName = ''Bob'',
               wi_customerPhone = ''0830000000'', wi_deviceModel = ''Tablet'',
               wi_deviceIssue = ''Battery'', wi_imei = []\<rparr>
              ''2025-01-03T09:00:00.000Z'' ''b2'' True,
            TypeInvoiceNo ''INV-2'', SelectStatus 3,
            ClickUpdateStatus ''2025-01-04T09:00:00.000Z'' True]))
       = [''Testing'']"
proof -
  have c: "closedWorld exampleWorld"
    by (simp add: closedWorld_def closedBooking_def exampleWorld_def exampleBooking_def
          exampleRepairData_def toolOptions_def statusOrder_def)
  have u: "map status (bookings
         (step exampleWorld (ClickUpdateRepair ''2025-01-06T10:00:00.000Z'' True True)))
       = [''Testing'']"
    "currentBooking
         (step exampleWorld (ClickUpdateRepair ''2025-01-06T10:00:00.000Z'' True True))
       = Some (StatusOnly ''Testing'')"
    by (simp_all add: step_def rerender_frame handleUpdateRepair_def updateDoc_def Let_def
          onClose_def updateBookingStatusIn_def noUser_def truthy_def exampleWorld_def
          exampleBooking_def exampleRepairData_def)
  have t: "step exampleWorld (TypeInvoiceNo ''INV-9'')
      = exampleWorld\<lparr>updateStatusData := \<lparr>usd_invoiceNo = ''INV-9'', usd_status = ''Testing''\<rparr>,
                       repairForm := Some (defaultRepairData ''In Progress'')\<rparr>"
    by (simp add: step_def rerender_def mountForm_def groupedBookings_def emptyGroups_def
          statusOrder_def exampleWorld_def exampleBooking_def)
  have v: "map status (bookings
         (run exampleWorld
            [TypeInvoiceNo ''INV-9'',
             ClickUpdateRepair ''2025-01-06T10:00:00.000Z'' True True]))
       = [''In Progress'']"
    unfolding run_def foldl.simps t
    by (simp add: step_def rerender_frame handleUpdateRepair_def updateDoc_def Let_def
          onClose_def updateBookingStatusIn_def noUser_def truthy_def exampleWorld_def
          exampleBooking_def defaultRepairData_def)
  have r: "map status
        (bookings (run (initialWorld True (Some ''tenant-1'')
                         (Some (initialProfile ''2025-01-01T00:00:00.000Z'')))
           [ClickCheckIn
              \<lparr>wi_invoiceNo = ''INV-2'', wi_customerName = ''Bob'',
               wi_customerPhone = ''0830000000'', wi_deviceModel = ''Tablet'',
               wi_deviceIssue = ''Battery'', wi_imei = []\<rparr>
              ''2025-01-03T09:00:00.000Z'' ''b2'' True,
            TypeInvoiceNo ''INV-2'', SelectStatus 3,
            ClickUpdateStatus ''2025-01-04T09:00:00.000Z'' True]))
       = [''Testing'']"
    by (simp add: run_def step_def rerender_def mountForm_def groupedBookings_def
          emptyGroups_def statusOrder_def initialWorld_def toolOptions_def handleCheckIn_def
          addDoc_def handleUpdateStatusTool_def updateBookingStatus_def
          updateBookingStatusIn_def updateDoc_def noUser_def truthy_def
          sendStatusNotification_def initialUpdateStatusData_def Let_def)
  from status_invariant
         [of True "Some ''tenant-1''" "Some (initialProfile ''2025-01-01T00:00:00.000Z'')"
            "[ClickCheckIn
              \<lparr>wi_invoiceNo = ''INV-2'', wi_customerName = ''Bob'',
               wi_customerPhone = ''0830000000'', wi_deviceModel = ''Tablet'',
               wi_deviceIssue = ''Battery'', wi_imei = []\<rparr>
              ''2025-01-03T09:00:00.000Z'' ''b2'' True,
            TypeInvoiceNo ''INV-2'', SelectStatus 3,
            ClickUpdateStatus ''2025-01-04T09:00:00.000Z'' True]"
            exampleWorld "ClickUpdateRepair ''2025-01-06T10:00:00.000Z'' True True"] c u v r
  show ?thesis by blast
qed

end
